theory Spec2Isabelle
  imports Main "HOL-Library.Option_ord" "HOL-Library.Multiset"
begin

section \<open>Documents\<close>

text \<open>
  The three route files (\<^verbatim>\<open>routes/assignments.js\<close>, \<^verbatim>\<open>routes/subjects.js\<close>,
  \<^verbatim>\<open>routes/exams.js\<close>) are embedded handler by handler. A collection is the list of
  its documents in insertion order; an ObjectId is a natural number; a date is an
  integer (milliseconds). A path that a document may lack is an \<open>option\<close>.
\<close>

record doc =
  oid :: nat

record user = doc +
  user_name :: string
  email :: string
  role :: string

text \<open>What \<^verbatim>\<open>populate('createdBy', 'name email')\<close> embeds.\<close>

record user_ref = doc +
  ref_user_name :: string
  ref_email :: string

record timestamped = doc +
  createdAt :: int

record subject = timestamped +
  name :: "string option"
  code :: "string option"
  color :: "string option"

text \<open>What \<^verbatim>\<open>populate('subject', 'name code color')\<close> embeds.\<close>

record subject_ref = doc +
  ref_name :: "string option"
  ref_code :: "string option"
  ref_color :: "string option"

text \<open>
  An assignment as stored holds the ids of its subject and of its creator
  (\<open>(nat option, nat) assignment\<close>); once populated it holds the embedded summaries, or
  null where the reference matches no document
  (\<open>(subject_ref option, user_ref option) assignment\<close>).
\<close>

record ('s, 'u) assignment = timestamped +
  title :: "string option"
  description :: "string option"
  subject :: 's
  createdBy :: 'u
  dueDate :: "int option"
  status :: "string option"

record 's exam = doc +
  exam_title :: "string option"
  exam_subject :: 's
  date :: "int option"

type_synonym stored_assignment = "(nat option, nat) assignment"
type_synonym populated_assignment = "(subject_ref option, user_ref option) assignment"
type_synonym stored_exam = "nat option exam"
type_synonym populated_exam = "subject_ref option exam"

text \<open>
  The objects of request bodies. A field the client left out is \<open>None\<close>. They range
  over the entity's client-settable paths; ids and timestamps in a body, explicit JSON
  nulls and values of the wrong JSON type are outside this type.
\<close>

record subject_body =
  body_name :: "string option"
  body_code :: "string option"
  body_color :: "string option"

record assignment_body =
  body_title :: "string option"
  body_description :: "string option"
  body_subject :: "nat option"
  body_createdBy :: "nat option"
  body_dueDate :: "int option"
  body_status :: "string option"

record exam_body =
  body_exam_title :: "string option"
  body_exam_subject :: "nat option"
  body_date :: "int option"

text \<open>
  The schemas (\<^verbatim>\<open>models/*.js\<close>) are not among the sources: their validators and
  default values are parameters. \<open>create_ok\<close> is what \<^verbatim>\<open>Model.create\<close> checks,
  \<open>update_ok\<close> what \<^verbatim>\<open>runValidators: true\<close> checks on the paths of an update, and
  \<open>defaults\<close> holds the value of every path that has a default.
\<close>

text \<open>
  \<^verbatim>\<open>express.json()\<close> (the server file) hands a handler whatever JSON object or array
  the client sent as \<^verbatim>\<open>req.body\<close>. The create routes below take either; an update
  body is one object of paths (update operators and pipelines are outside the type).
\<close>

datatype 'b json_body = Object 'b | Array "'b list"

text \<open>
  \<^verbatim>\<open>req.params.id\<close> is a path segment: text that Mongoose casts to an ObjectId, or
  text that does not cast.
\<close>

datatype param = ObjectId nat | NotObjectId string

record 'b schema =
  create_ok :: "'b \<Rightarrow> bool"
  update_ok :: "'b \<Rightarrow> bool"
  defaults :: 'b

record store =
  users :: "user list"
  subjects :: "subject list"
  assignments :: "stored_assignment list"
  exams :: "stored_exam list"
  next_oid :: nat

section \<open>Responses\<close>

text \<open>Exceptions that reach a handler's \<^verbatim>\<open>catch\<close> block.\<close>

datatype exn = ValidationError | CastError | TypeError

text \<open>
  The \<^verbatim>\<open>message\<close> of the envelope: a literal of the source, or \<^verbatim>\<open>error.message\<close> of
  the exception caught.
\<close>

datatype msg = Text string | ErrorMessage exn

text \<open>The \<^verbatim>\<open>data\<close> of the envelope: an array, one document, \<^verbatim>\<open>{}\<close> or \<^verbatim>\<open>null\<close>.\<close>

datatype 'd body_data = Many "'d list" | One 'd | Empty | Null

record 'd envelope =
  success :: bool
  count :: "nat option"
  data :: "'d body_data option"
  message :: "msg option"

type_synonym 'd response = "nat \<times> 'd envelope"

definition json_list :: "'d list \<Rightarrow> 'd response" where
  "json_list ds =
     (200, \<lparr>success = True, count = Some (length ds), data = Some (Many ds), message = None\<rparr>)"

definition json_data :: "nat \<Rightarrow> 'd body_data \<Rightarrow> 'd response" where
  "json_data st d = (st, \<lparr>success = True, count = None, data = Some d, message = None\<rparr>)"

definition json_fail :: "nat \<Rightarrow> msg \<Rightarrow> 'd response" where
  "json_fail st m = (st, \<lparr>success = False, count = None, data = None, message = Some m\<rparr>)"

definition nullable :: "'d option \<Rightarrow> 'd body_data" where
  "nullable d = (case d of None \<Rightarrow> Null | Some x \<Rightarrow> One x)"

section \<open>The document store (Mongoose queries)\<close>

text \<open>The first document with the ObjectId, as \<^verbatim>\<open>findOne({_id: i})\<close> finds it.\<close>

definition findOne :: "('a doc_scheme) list \<Rightarrow> nat \<Rightarrow> 'a doc_scheme option" where
  "findOne docs i = find (\<lambda>d. oid d = i) docs"

text \<open>
  A query by id casts the id it is given first: text that is no ObjectId makes the query
  throw a CastError.
\<close>

fun castObjectId :: "param \<Rightarrow> exn + nat" where
  "castObjectId (ObjectId i) = Inr i"
| "castObjectId (NotObjectId s) = Inl CastError"

definition findById :: "('a doc_scheme) list \<Rightarrow> param \<Rightarrow> exn + 'a doc_scheme option" where
  "findById docs p =
     (case castObjectId p of Inl e \<Rightarrow> Inl e | Inr i \<Rightarrow> Inr (findOne docs i))"

fun delete_one :: "nat \<Rightarrow> ('a doc_scheme) list \<Rightarrow> ('a doc_scheme) list" where
  "delete_one i [] = []"
| "delete_one i (d # ds) = (if oid d = i then ds else d # delete_one i ds)"

fun update_one ::
  "nat \<Rightarrow> ('a doc_scheme \<Rightarrow> 'a doc_scheme) \<Rightarrow> ('a doc_scheme) list \<Rightarrow> ('a doc_scheme) list" where
  "update_one i f [] = []"
| "update_one i f (d # ds) = (if oid d = i then f d # ds else d # update_one i f ds)"

definition findByIdAndDelete ::
  "('a doc_scheme) list \<Rightarrow> param \<Rightarrow> exn + ('a doc_scheme option \<times> ('a doc_scheme) list)" where
  "findByIdAndDelete docs p =
     (case castObjectId p of Inl e \<Rightarrow> Inl e
      | Inr i \<Rightarrow> Inr (findOne docs i, delete_one i docs))"

text \<open>
  \<^verbatim>\<open>findByIdAndUpdate(id, body, {new: true, runValidators: true})\<close>: the id is cast,
  then the update validators run, both before the query is sent, and either throws;
  otherwise the first document with the id is updated and returned as updated, or null
  is returned.
\<close>

definition findByIdAndUpdate ::
  "bool \<Rightarrow> ('a doc_scheme \<Rightarrow> 'a doc_scheme) \<Rightarrow> ('a doc_scheme) list \<Rightarrow> param \<Rightarrow>
     exn + ('a doc_scheme option \<times> ('a doc_scheme) list)" where
  "findByIdAndUpdate valid f docs p =
     (case castObjectId p of Inl e \<Rightarrow> Inl e
      | Inr i \<Rightarrow>
          if \<not> valid then Inl ValidationError
          else Inr (map_option f (findOne docs i), update_one i f docs))"

text \<open>
  \<^verbatim>\<open>Model.create(body)\<close>. For an object it saves the one document the body casts to
  and resolves to it. For an array it saves a document for each element that casts,
  whatever becomes of the others, and resolves to the array of documents, or throws the
  first error. \<open>new\<close> is the cast of the schema; the result is the documents saved, the
  next id, and what the call resolves to or throws.
\<close>

datatype 'd created = Single 'd | Several "'d list"

fun create_many ::
  "(nat \<Rightarrow> 'b \<Rightarrow> exn + 'd) \<Rightarrow> nat \<Rightarrow> 'b list \<Rightarrow> 'd list \<times> nat \<times> exn option" where
  "create_many new n [] = ([], n, None)"
| "create_many new n (b # bs) =
     (case new n b of
        Inl e \<Rightarrow> (case create_many new n bs of (ds, m, _) \<Rightarrow> (ds, m, Some e))
      | Inr d \<Rightarrow> (case create_many new (Suc n) bs of (ds, m, err) \<Rightarrow> (d # ds, m, err)))"

definition Model_create ::
  "(nat \<Rightarrow> 'b \<Rightarrow> exn + 'd) \<Rightarrow> nat \<Rightarrow> 'b json_body \<Rightarrow> 'd list \<times> nat \<times> (exn + 'd created)" where
  "Model_create new n body =
     (case body of
        Object b \<Rightarrow>
          (case new n b of
             Inl e \<Rightarrow> ([], n, Inl e)
           | Inr d \<Rightarrow> ([d], Suc n, Inr (Single d)))
      | Array bs \<Rightarrow>
          (case create_many new n bs of
             (ds, m, None) \<Rightarrow> (ds, m, Inr (Several ds))
           | (ds, m, Some e) \<Rightarrow> (ds, m, Inl e)))"

text \<open>
  The re-read \<^verbatim>\<open>Model.findById(created._id)\<close> of the create handlers: an array has no
  \<^verbatim>\<open>_id\<close>, and \<^verbatim>\<open>findById(undefined)\<close> resolves to null.
\<close>

fun reread :: "('a doc_scheme) list \<Rightarrow> 'a doc_scheme created \<Rightarrow> 'a doc_scheme option" where
  "reread docs (Single d) = findOne docs (oid d)"
| "reread docs (Several ds) = None"

text \<open>The value of a path that a body may set: the body's if it carries one.\<close>

definition merge :: "'a option \<Rightarrow> 'a option \<Rightarrow> 'a option" where
  "merge new old = (case new of None \<Rightarrow> old | Some v \<Rightarrow> Some v)"

definition populate_subject :: "store \<Rightarrow> nat option \<Rightarrow> subject_ref option" where
  "populate_subject st r =
     (case r of None \<Rightarrow> None
      | Some i \<Rightarrow>
          (case findOne (subjects st) i of None \<Rightarrow> None
           | Some s \<Rightarrow>
               Some \<lparr>oid = oid s, ref_name = name s, ref_code = code s, ref_color = color s\<rparr>))"

definition populate_createdBy :: "store \<Rightarrow> nat \<Rightarrow> user_ref option" where
  "populate_createdBy st i =
     (case findOne (users st) i of None \<Rightarrow> None
      | Some u \<Rightarrow> Some \<lparr>oid = oid u, ref_user_name = user_name u, ref_email = email u\<rparr>)"

definition populate_assignment :: "store \<Rightarrow> stored_assignment \<Rightarrow> populated_assignment" where
  "populate_assignment st a =
     \<lparr>oid = oid a, createdAt = createdAt a, title = title a, description = description a,
      subject = populate_subject st (subject a), createdBy = populate_createdBy st (createdBy a),
      dueDate = dueDate a, status = status a\<rparr>"

definition populate_exam :: "store \<Rightarrow> stored_exam \<Rightarrow> populated_exam" where
  "populate_exam st e =
     \<lparr>oid = oid e, exam_title = exam_title e,
      exam_subject = populate_subject st (exam_subject e), date = date e\<rparr>"

section \<open>Middleware\<close>

text \<open>
  Modelled from the spec: \<^verbatim>\<open>middleware/auth.js\<close> (\<^verbatim>\<open>protect\<close>, \<^verbatim>\<open>authorize\<close>) is
  missing from the sources. \<^verbatim>\<open>protect\<close> resolves the bearer credential to a user
  record or rejects the request as unauthenticated; the credential is the user id a
  verified token carries, \<open>None\<close> when there is no well-formed token.
  \<^verbatim>\<open>authorize(r)\<close> rejects the request as forbidden (403) unless the resolved user's
  role is \<open>r\<close>.
\<close>

datatype refusal = Unauthenticated | Forbidden

fun refuse :: "refusal \<Rightarrow> 'd response" where
  "refuse Unauthenticated = json_fail 401 (Text ''Not authorized'')"
| "refuse Forbidden = json_fail 403 (Text ''Forbidden'')"

definition protect :: "store \<Rightarrow> nat option \<Rightarrow> refusal + user" where
  "protect st cred =
     (case cred of None \<Rightarrow> Inl Unauthenticated
      | Some i \<Rightarrow>
          (case findOne (users st) i of None \<Rightarrow> Inl Unauthenticated | Some u \<Rightarrow> Inr u))"

definition authorize :: "string \<Rightarrow> user \<Rightarrow> refusal option" where
  "authorize r u = (if role u = r then None else Some Forbidden)"

text \<open>
  The middleware chains of the routes: \<^verbatim>\<open>protect, handler\<close> and
  \<^verbatim>\<open>protect, authorize('admin'), handler\<close>. A handler that writes returns the store.
\<close>

definition protected_read ::
  "store \<Rightarrow> nat option \<Rightarrow> (user \<Rightarrow> 'd response) \<Rightarrow> 'd response" where
  "protected_read st cred handler =
     (case protect st cred of Inl r \<Rightarrow> refuse r | Inr u \<Rightarrow> handler u)"

definition protected_write ::
  "store \<Rightarrow> nat option \<Rightarrow> (user \<Rightarrow> store \<times> 'd response) \<Rightarrow> store \<times> 'd response" where
  "protected_write st cred handler =
     (case protect st cred of Inl r \<Rightarrow> (st, refuse r) | Inr u \<Rightarrow> handler u)"

definition admin_write ::
  "store \<Rightarrow> nat option \<Rightarrow> (user \<Rightarrow> store \<times> 'd response) \<Rightarrow> store \<times> 'd response" where
  "admin_write st cred handler =
     protected_write st cred
       (\<lambda>u. case authorize ''admin'' u of Some r \<Rightarrow> (st, refuse r) | None \<Rightarrow> handler u)"

section \<open>routes/assignments.js\<close>

text \<open>The file is \<^verbatim>\<open>src/unnamed/part_000\<close> of the sources.\<close>

text \<open>\<^verbatim>\<open>dueDate: { $lt: new Date() }\<close>: a document without the path does not match.\<close>

definition date_lt :: "int option \<Rightarrow> int \<Rightarrow> bool" where
  "date_lt d now = (case d of None \<Rightarrow> False | Some t \<Rightarrow> t < now)"

definition overdue :: "int \<Rightarrow> stored_assignment \<Rightarrow> bool" where
  "overdue now a = (date_lt (dueDate a) now \<and> status a \<noteq> Some ''completed'')"

text \<open>
  \<^verbatim>\<open>.sort({ dueDate: 1 })\<close> is applied by the database, \<^verbatim>\<open>populate\<close> to what it
  returns. A missing date sorts first, as \<open>None\<close> does in the order of \<open>option\<close>. The
  order among equal keys is the engine's; no theorem below depends on it.
\<close>

definition list_assignments :: "store \<Rightarrow> user \<Rightarrow> populated_assignment response" where
  "list_assignments st u =
     (let query =
            (if role u = ''student'' then filter (\<lambda>a. createdBy a = oid u) (assignments st)
             else assignments st)
      in json_list (map (populate_assignment st) (sort_key dueDate query)))"

definition overdue_assignments :: "int \<Rightarrow> store \<Rightarrow> user \<Rightarrow> populated_assignment response" where
  "overdue_assignments now st u =
     (let query =
            (if role u = ''student''
             then filter (\<lambda>a. createdBy a = oid u \<and> overdue now a) (assignments st)
             else filter (overdue now) (assignments st))
      in json_list (map (populate_assignment st) (sort_key dueDate query)))"

text \<open>
  The ownership test reads \<^verbatim>\<open>assignment.createdBy._id\<close> of the populated document,
  and only when the role is \<^verbatim>\<open>'student'\<close> (\<^verbatim>\<open>&&\<close> short-circuits): a creator that
  populated to null throws a TypeError there, which the \<^verbatim>\<open>catch\<close> turns into a 500.
\<close>

definition getById_assignment :: "store \<Rightarrow> user \<Rightarrow> param \<Rightarrow> populated_assignment response" where
  "getById_assignment st u p =
     (case findById (assignments st) p of
        Inl e \<Rightarrow> json_fail 500 (ErrorMessage e)
      | Inr None \<Rightarrow> json_fail 404 (Text ''Assignment not found'')
      | Inr (Some a) \<Rightarrow>
          (let assignment = populate_assignment st a in
           if role u = ''student'' then
             (case createdBy assignment of
                None \<Rightarrow> json_fail 500 (ErrorMessage TypeError)
              | Some c \<Rightarrow>
                  if oid c \<noteq> oid u
                  then json_fail 403 (Text ''Not authorized to view this assignment'')
                  else json_data 200 (One assignment))
           else json_data 200 (One assignment)))"

text \<open>
  \<^verbatim>\<open>Assignment.create(body)\<close>: the document the body casts to, a path the body
  lacks taking its default. \<open>createdBy\<close> is a path every stored assignment has, so a
  body without it is not a document.
\<close>

definition new_assignment ::
  "assignment_body schema \<Rightarrow> nat \<Rightarrow> int \<Rightarrow> assignment_body \<Rightarrow> exn + stored_assignment" where
  "new_assignment sc i now b =
     (if \<not> create_ok sc b then Inl ValidationError
      else
        (case body_createdBy b of
           None \<Rightarrow> Inl ValidationError
         | Some c \<Rightarrow>
             Inr \<lparr>oid = i, createdAt = now,
                  title = merge (body_title b) (body_title (defaults sc)),
                  description = merge (body_description b) (body_description (defaults sc)),
                  subject = merge (body_subject b) (body_subject (defaults sc)),
                  createdBy = c,
                  dueDate = merge (body_dueDate b) (body_dueDate (defaults sc)),
                  status = merge (body_status b) (body_status (defaults sc))\<rparr>))"

text \<open>
  \<^verbatim>\<open>req.body.createdBy = req.user._id\<close>: on an object this is the path of the
  document to be; on an array it is a property of the array, and the elements stay as
  the client wrote them.
\<close>

fun stamp :: "nat \<Rightarrow> assignment_body json_body \<Rightarrow> assignment_body json_body" where
  "stamp uid (Object b) = Object (b\<lparr>body_createdBy := Some uid\<rparr>)"
| "stamp uid (Array bs) = Array bs"

definition create_assignment ::
  "assignment_body schema \<Rightarrow> int \<Rightarrow> store \<Rightarrow> user \<Rightarrow> assignment_body json_body \<Rightarrow>
     store \<times> populated_assignment response" where
  "create_assignment sc now st u b =
     (let body = stamp (oid u) b in
      case Model_create (\<lambda>i. new_assignment sc i now) (next_oid st) body of
        (saved, n, outcome) \<Rightarrow>
          (let st' = st\<lparr>assignments := assignments st @ saved, next_oid := n\<rparr> in
           case outcome of
             Inl e \<Rightarrow> (st', json_fail 500 (ErrorMessage e))
           | Inr assignment \<Rightarrow>
               (let populatedAssignment =
                      map_option (populate_assignment st') (reread (assignments st') assignment)
                in (st', json_data 201 (nullable populatedAssignment)))))"

text \<open>
  What \<^verbatim>\<open>findByIdAndUpdate\<close> sets from a body: every path the body carries,
  \<open>createdBy\<close> among them.
\<close>

definition set_assignment :: "assignment_body \<Rightarrow> stored_assignment \<Rightarrow> stored_assignment" where
  "set_assignment b a =
     a\<lparr>title := merge (body_title b) (title a),
       description := merge (body_description b) (description a),
       subject := merge (body_subject b) (subject a),
       createdBy := (case body_createdBy b of None \<Rightarrow> createdBy a | Some c \<Rightarrow> c),
       dueDate := merge (body_dueDate b) (dueDate a),
       status := merge (body_status b) (status a)\<rparr>"

definition update_assignment ::
  "assignment_body schema \<Rightarrow> store \<Rightarrow> user \<Rightarrow> param \<Rightarrow> assignment_body \<Rightarrow>
     store \<times> populated_assignment response" where
  "update_assignment sc st u p b =
     (case findById (assignments st) p of
        Inl e \<Rightarrow> (st, json_fail 500 (ErrorMessage e))
      | Inr None \<Rightarrow> (st, json_fail 404 (Text ''Assignment not found''))
      | Inr (Some a) \<Rightarrow>
          if role u = ''student'' \<and> createdBy a \<noteq> oid u
          then (st, json_fail 403 (Text ''Not authorized to update this assignment''))
          else
            (case findByIdAndUpdate (update_ok sc b) (set_assignment b) (assignments st) p of
               Inl e \<Rightarrow> (st, json_fail 500 (ErrorMessage e))
             | Inr (assignment, docs) \<Rightarrow>
                 (let st' = st\<lparr>assignments := docs\<rparr>
                  in (st', json_data 200
                             (nullable (map_option (populate_assignment st') assignment))))))"

definition delete_assignment :: "store \<Rightarrow> param \<Rightarrow> store \<times> populated_assignment response" where
  "delete_assignment st p =
     (case findByIdAndDelete (assignments st) p of
        Inl e \<Rightarrow> (st, json_fail 500 (ErrorMessage e))
      | Inr (None, docs) \<Rightarrow>
          (st\<lparr>assignments := docs\<rparr>, json_fail 404 (Text ''Assignment not found''))
      | Inr (Some assignment, docs) \<Rightarrow> (st\<lparr>assignments := docs\<rparr>, json_data 200 Empty))"

definition GET_assignments :: "store \<Rightarrow> nat option \<Rightarrow> populated_assignment response" where
  "GET_assignments st cred = protected_read st cred (list_assignments st)"

definition GET_assignments_overdue ::
  "int \<Rightarrow> store \<Rightarrow> nat option \<Rightarrow> populated_assignment response" where
  "GET_assignments_overdue now st cred = protected_read st cred (overdue_assignments now st)"

definition GET_assignments_id ::
  "store \<Rightarrow> nat option \<Rightarrow> param \<Rightarrow> populated_assignment response" where
  "GET_assignments_id st cred p = protected_read st cred (\<lambda>u. getById_assignment st u p)"

definition POST_assignments ::
  "assignment_body schema \<Rightarrow> int \<Rightarrow> store \<Rightarrow> nat option \<Rightarrow> assignment_body json_body \<Rightarrow>
     store \<times> populated_assignment response" where
  "POST_assignments sc now st cred b =
     protected_write st cred (\<lambda>u. create_assignment sc now st u b)"

definition PUT_assignments_id ::
  "assignment_body schema \<Rightarrow> store \<Rightarrow> nat option \<Rightarrow> param \<Rightarrow> assignment_body \<Rightarrow>
     store \<times> populated_assignment response" where
  "PUT_assignments_id sc st cred p b =
     protected_write st cred (\<lambda>u. update_assignment sc st u p b)"

definition DELETE_assignments_id ::
  "store \<Rightarrow> nat option \<Rightarrow> param \<Rightarrow> store \<times> populated_assignment response" where
  "DELETE_assignments_id st cred p = admin_write st cred (\<lambda>u. delete_assignment st p)"

section \<open>routes/subjects.js\<close>

text \<open>\<^verbatim>\<open>.sort({ createdAt: -1 })\<close>: descending, the newest first.\<close>

definition list_subjects :: "store \<Rightarrow> subject response" where
  "list_subjects st = json_list (sort_key (\<lambda>s. - createdAt s) (subjects st))"

definition getById_subject :: "store \<Rightarrow> param \<Rightarrow> subject response" where
  "getById_subject st p =
     (case findById (subjects st) p of
        Inl e \<Rightarrow> json_fail 500 (ErrorMessage e)
      | Inr None \<Rightarrow> json_fail 404 (Text ''Subject not found'')
      | Inr (Some s) \<Rightarrow> json_data 200 (One s))"

definition new_subject :: "subject_body schema \<Rightarrow> nat \<Rightarrow> int \<Rightarrow> subject_body \<Rightarrow> exn + subject" where
  "new_subject sc i now b =
     (if \<not> create_ok sc b then Inl ValidationError
      else Inr \<lparr>oid = i, createdAt = now,
                name = merge (body_name b) (body_name (defaults sc)),
                code = merge (body_code b) (body_code (defaults sc)),
                color = merge (body_color b) (body_color (defaults sc))\<rparr>)"

text \<open>The answer carries what \<^verbatim>\<open>Subject.create\<close> resolved to: a document or an array.\<close>

fun created_data :: "'d created \<Rightarrow> 'd body_data" where
  "created_data (Single d) = One d"
| "created_data (Several ds) = Many ds"

definition create_subject ::
  "subject_body schema \<Rightarrow> int \<Rightarrow> store \<Rightarrow> subject_body json_body \<Rightarrow>
     store \<times> subject response" where
  "create_subject sc now st b =
     (case Model_create (\<lambda>i. new_subject sc i now) (next_oid st) b of
        (saved, n, outcome) \<Rightarrow>
          (let st' = st\<lparr>subjects := subjects st @ saved, next_oid := n\<rparr> in
           case outcome of
             Inl e \<Rightarrow> (st', json_fail 500 (ErrorMessage e))
           | Inr s \<Rightarrow> (st', json_data 201 (created_data s))))"

definition set_subject :: "subject_body \<Rightarrow> subject \<Rightarrow> subject" where
  "set_subject b s =
     s\<lparr>name := merge (body_name b) (name s), code := merge (body_code b) (code s),
       color := merge (body_color b) (color s)\<rparr>"

definition update_subject ::
  "subject_body schema \<Rightarrow> store \<Rightarrow> param \<Rightarrow> subject_body \<Rightarrow> store \<times> subject response" where
  "update_subject sc st p b =
     (case findByIdAndUpdate (update_ok sc b) (set_subject b) (subjects st) p of
        Inl e \<Rightarrow> (st, json_fail 500 (ErrorMessage e))
      | Inr (None, docs) \<Rightarrow> (st\<lparr>subjects := docs\<rparr>, json_fail 404 (Text ''Subject not found''))
      | Inr (Some s, docs) \<Rightarrow> (st\<lparr>subjects := docs\<rparr>, json_data 200 (One s)))"

definition delete_subject :: "store \<Rightarrow> param \<Rightarrow> store \<times> subject response" where
  "delete_subject st p =
     (case findByIdAndDelete (subjects st) p of
        Inl e \<Rightarrow> (st, json_fail 500 (ErrorMessage e))
      | Inr (None, docs) \<Rightarrow> (st\<lparr>subjects := docs\<rparr>, json_fail 404 (Text ''Subject not found''))
      | Inr (Some s, docs) \<Rightarrow> (st\<lparr>subjects := docs\<rparr>, json_data 200 Empty))"

definition GET_subjects :: "store \<Rightarrow> nat option \<Rightarrow> subject response" where
  "GET_subjects st cred = protected_read st cred (\<lambda>u. list_subjects st)"

definition GET_subjects_id :: "store \<Rightarrow> nat option \<Rightarrow> param \<Rightarrow> subject response" where
  "GET_subjects_id st cred p = protected_read st cred (\<lambda>u. getById_subject st p)"

definition POST_subjects ::
  "subject_body schema \<Rightarrow> int \<Rightarrow> store \<Rightarrow> nat option \<Rightarrow> subject_body json_body \<Rightarrow>
     store \<times> subject response" where
  "POST_subjects sc now st cred b = admin_write st cred (\<lambda>u. create_subject sc now st b)"

definition PUT_subjects_id ::
  "subject_body schema \<Rightarrow> store \<Rightarrow> nat option \<Rightarrow> param \<Rightarrow> subject_body \<Rightarrow>
     store \<times> subject response" where
  "PUT_subjects_id sc st cred p b = admin_write st cred (\<lambda>u. update_subject sc st p b)"

definition DELETE_subjects_id :: "store \<Rightarrow> nat option \<Rightarrow> param \<Rightarrow> store \<times> subject response" where
  "DELETE_subjects_id st cred p = admin_write st cred (\<lambda>u. delete_subject st p)"

section \<open>routes/exams.js\<close>

definition list_exams :: "store \<Rightarrow> populated_exam response" where
  "list_exams st = json_list (map (populate_exam st) (sort_key date (exams st)))"

definition getById_exam :: "store \<Rightarrow> param \<Rightarrow> populated_exam response" where
  "getById_exam st p =
     (case findById (exams st) p of
        Inl e \<Rightarrow> json_fail 500 (ErrorMessage e)
      | Inr None \<Rightarrow> json_fail 404 (Text ''Exam not found'')
      | Inr (Some e) \<Rightarrow> json_data 200 (One (populate_exam st e)))"

definition new_exam :: "exam_body schema \<Rightarrow> nat \<Rightarrow> exam_body \<Rightarrow> exn + stored_exam" where
  "new_exam sc i b =
     (if \<not> create_ok sc b then Inl ValidationError
      else Inr \<lparr>oid = i,
                exam_title = merge (body_exam_title b) (body_exam_title (defaults sc)),
                exam_subject = merge (body_exam_subject b) (body_exam_subject (defaults sc)),
                date = merge (body_date b) (body_date (defaults sc))\<rparr>)"

definition create_exam ::
  "exam_body schema \<Rightarrow> store \<Rightarrow> exam_body json_body \<Rightarrow> store \<times> populated_exam response" where
  "create_exam sc st b =
     (case Model_create (new_exam sc) (next_oid st) b of
        (saved, n, outcome) \<Rightarrow>
          (let st' = st\<lparr>exams := exams st @ saved, next_oid := n\<rparr> in
           case outcome of
             Inl e \<Rightarrow> (st', json_fail 500 (ErrorMessage e))
           | Inr exam \<Rightarrow>
               (let populatedExam = map_option (populate_exam st') (reread (exams st') exam)
                in (st', json_data 201 (nullable populatedExam)))))"

definition set_exam :: "exam_body \<Rightarrow> stored_exam \<Rightarrow> stored_exam" where
  "set_exam b e =
     e\<lparr>exam_title := merge (body_exam_title b) (exam_title e),
       exam_subject := merge (body_exam_subject b) (exam_subject e),
       date := merge (body_date b) (date e)\<rparr>"

definition update_exam ::
  "exam_body schema \<Rightarrow> store \<Rightarrow> param \<Rightarrow> exam_body \<Rightarrow> store \<times> populated_exam response" where
  "update_exam sc st p b =
     (case findByIdAndUpdate (update_ok sc b) (set_exam b) (exams st) p of
        Inl e \<Rightarrow> (st, json_fail 500 (ErrorMessage e))
      | Inr (None, docs) \<Rightarrow> (st\<lparr>exams := docs\<rparr>, json_fail 404 (Text ''Exam not found''))
      | Inr (Some exam, docs) \<Rightarrow>
          (let st' = st\<lparr>exams := docs\<rparr>
           in (st', json_data 200 (One (populate_exam st' exam)))))"

definition delete_exam :: "store \<Rightarrow> param \<Rightarrow> store \<times> populated_exam response" where
  "delete_exam st p =
     (case findByIdAndDelete (exams st) p of
        Inl e \<Rightarrow> (st, json_fail 500 (ErrorMessage e))
      | Inr (None, docs) \<Rightarrow> (st\<lparr>exams := docs\<rparr>, json_fail 404 (Text ''Exam not found''))
      | Inr (Some exam, docs) \<Rightarrow> (st\<lparr>exams := docs\<rparr>, json_data 200 Empty))"

definition GET_exams :: "store \<Rightarrow> nat option \<Rightarrow> populated_exam response" where
  "GET_exams st cred = protected_read st cred (\<lambda>u. list_exams st)"

definition GET_exams_id :: "store \<Rightarrow> nat option \<Rightarrow> param \<Rightarrow> populated_exam response" where
  "GET_exams_id st cred p = protected_read st cred (\<lambda>u. getById_exam st p)"

definition POST_exams ::
  "exam_body schema \<Rightarrow> store \<Rightarrow> nat option \<Rightarrow> exam_body json_body \<Rightarrow>
     store \<times> populated_exam response" where
  "POST_exams sc st cred b = admin_write st cred (\<lambda>u. create_exam sc st b)"

definition PUT_exams_id ::
  "exam_body schema \<Rightarrow> store \<Rightarrow> nat option \<Rightarrow> param \<Rightarrow> exam_body \<Rightarrow>
     store \<times> populated_exam response" where
  "PUT_exams_id sc st cred p b = admin_write st cred (\<lambda>u. update_exam sc st p b)"

definition DELETE_exams_id :: "store \<Rightarrow> nat option \<Rightarrow> param \<Rightarrow> store \<times> populated_exam response" where
  "DELETE_exams_id st cred p = admin_write st cred (\<lambda>u. delete_exam st p)"

section \<open>The generic failure\<close>

text \<open>
  What a handler's \<^verbatim>\<open>catch\<close> block answers to a validation error: status 500, the
  envelope \<^verbatim>\<open>{success: false, message: error.message}\<close>, and the store untouched.
\<close>

definition fails_with_500 :: "store \<Rightarrow> store \<times> 'd response \<Rightarrow> bool" where
  "fails_with_500 st R =
     (fst R = st \<and> fst (snd R) = 500 \<and> \<not> success (snd (snd R)) \<and>
      data (snd (snd R)) = None \<and> message (snd (snd R)) = Some (ErrorMessage ValidationError))"

section \<open>Well-formed stores and example data\<close>

text \<open>
  ObjectIds are unique within a collection and never reused: every id in use lies below
  the next one to be generated.
\<close>

definition fresh_ids :: "nat \<Rightarrow> ('a doc_scheme) list \<Rightarrow> bool" where
  "fresh_ids n docs = (distinct (map oid docs) \<and> list_all (\<lambda>d. oid d < n) docs)"

definition wf_store :: "store \<Rightarrow> bool" where
  "wf_store st =
     (fresh_ids (next_oid st) (users st) \<and> fresh_ids (next_oid st) (subjects st) \<and>
      fresh_ids (next_oid st) (assignments st) \<and> fresh_ids (next_oid st) (exams st))"

text \<open>
  Example schemas, for the concrete runs below: a title (a name) is required on
  creation, and a status must be one of the enumeration.
\<close>

definition status_ok :: "string option \<Rightarrow> bool" where
  "status_ok s =
     (case s of None \<Rightarrow> True
      | Some v \<Rightarrow> v = ''pending'' \<or> v = ''in-progress'' \<or> v = ''completed'')"

definition no_assignment_body :: assignment_body where
  "no_assignment_body =
     \<lparr>body_title = None, body_description = None, body_subject = None,
      body_createdBy = None, body_dueDate = None, body_status = None\<rparr>"

definition no_subject_body :: subject_body where
  "no_subject_body = \<lparr>body_name = None, body_code = None, body_color = None\<rparr>"

definition no_exam_body :: exam_body where
  "no_exam_body = \<lparr>body_exam_title = None, body_exam_subject = None, body_date = None\<rparr>"

definition assignment_schema :: "assignment_body schema" where
  "assignment_schema =
     \<lparr>create_ok = (\<lambda>b. body_title b \<noteq> None \<and> status_ok (body_status b)),
      update_ok = (\<lambda>b. status_ok (body_status b)),
      defaults = no_assignment_body\<lparr>body_status := Some ''pending''\<rparr>\<rparr>"

definition subject_schema :: "subject_body schema" where
  "subject_schema =
     \<lparr>create_ok = (\<lambda>b. body_name b \<noteq> None \<and> body_code b \<noteq> None),
      update_ok = (\<lambda>b. body_name b \<noteq> Some []),
      defaults = no_subject_body\<rparr>"

definition exam_schema :: "exam_body schema" where
  "exam_schema =
     \<lparr>create_ok = (\<lambda>b. body_exam_title b \<noteq> None \<and> body_date b \<noteq> None),
      update_ok = (\<lambda>b. body_exam_title b \<noteq> Some []),
      defaults = no_exam_body\<rparr>"

text \<open>
  An example store: two students, an admin and a user of a third role; two subjects;
  two assignments of the first student (one overdue at time 200, one completed), one of
  the second; two exams.
\<close>

definition alice :: user where
  "alice = \<lparr>oid = 1, user_name = ''Alice'', email = ''alice@example.org'', role = ''student''\<rparr>"

definition bob :: user where
  "bob = \<lparr>oid = 2, user_name = ''Bob'', email = ''bob@example.org'', role = ''student''\<rparr>"

definition root :: user where
  "root = \<lparr>oid = 3, user_name = ''Root'', email = ''root@example.org'', role = ''admin''\<rparr>"

definition tutor :: user where
  "tutor = \<lparr>oid = 4, user_name = ''Tutor'', email = ''tutor@example.org'', role = ''teacher''\<rparr>"

definition math :: subject where
  "math = \<lparr>oid = 10, createdAt = 5, name = Some ''Math'', code = Some ''MATH101'',
           color = Some ''#ff0000''\<rparr>"

definition physics :: subject where
  "physics = \<lparr>oid = 11, createdAt = 7, name = Some ''Physics'', code = Some ''PHY101'',
              color = None\<rparr>"

definition hw1 :: stored_assignment where
  "hw1 = \<lparr>oid = 20, createdAt = 50, title = Some ''HW1'', description = None,
          subject = Some 10, createdBy = 1, dueDate = Some 100, status = Some ''pending''\<rparr>"

definition hw2 :: stored_assignment where
  "hw2 = \<lparr>oid = 21, createdAt = 51, title = Some ''HW2'', description = None,
          subject = Some 10, createdBy = 1, dueDate = Some 90, status = Some ''completed''\<rparr>"

definition hw3 :: stored_assignment where
  "hw3 = \<lparr>oid = 22, createdAt = 52, title = Some ''HW3'', description = None,
          subject = Some 11, createdBy = 2, dueDate = Some 80, status = None\<rparr>"

definition midterm :: stored_exam where
  "midterm = \<lparr>oid = 25, exam_title = Some ''Midterm'', exam_subject = Some 10, date = Some 300\<rparr>"

definition quiz :: stored_exam where
  "quiz = \<lparr>oid = 26, exam_title = Some ''Quiz'', exam_subject = Some 11, date = Some 150\<rparr>"

definition campus :: store where
  "campus =
     \<lparr>users = [alice, bob, root, tutor], subjects = [math, physics],
      assignments = [hw1, hw2, hw3], exams = [midterm, quiz], next_oid = 30\<rparr>"

text \<open>Request bodies for the runs.\<close>

definition chemistry :: subject_body where
  "chemistry =
     \<lparr>body_name = Some ''Chemistry'', body_code = Some ''CHEM101'',
      body_color = Some ''#00ff00''\<rparr>"

definition essay :: assignment_body where
  "essay =
     \<lparr>body_title = Some ''Essay'', body_description = None, body_subject = Some 10,
      body_createdBy = Some 2, body_dueDate = Some 400, body_status = None\<rparr>"

definition done_body :: assignment_body where
  "done_body = no_assignment_body\<lparr>body_status := Some ''completed''\<rparr>"

definition bogus_body :: assignment_body where
  "bogus_body = no_assignment_body\<lparr>body_status := Some ''bogus''\<rparr>"

definition handover :: assignment_body where
  "handover = no_assignment_body\<lparr>body_createdBy := Some 2\<rparr>"

definition giveaway :: assignment_body where
  "giveaway = no_assignment_body\<lparr>body_createdBy := Some 99\<rparr>"

definition unnamed_subject :: subject_body where
  "unnamed_subject = no_subject_body\<lparr>body_name := Some []\<rparr>"

definition untitled_exam :: exam_body where
  "untitled_exam = no_exam_body\<lparr>body_exam_title := Some []\<rparr>"

text \<open>The example store once the first student's account is gone.\<close>

definition campus_without_alice :: store where
  "campus_without_alice = campus\<lparr>users := [bob, root, tutor]\<rparr>"

section \<open>Facts about the store and the middleware\<close>

lemma findOne_Some: "findOne docs i = Some d \<Longrightarrow> oid d = i \<and> d \<in> set docs"
  unfolding findOne_def by (induction docs) (auto split: if_splits)

lemma findOne_None: "findOne docs i = None \<longleftrightarrow> i \<notin> oid ` set docs"
  unfolding findOne_def by (induction docs) auto

lemma delete_one_absent: "findOne docs i = None \<Longrightarrow> delete_one i docs = docs"
  unfolding findOne_def by (induction docs) (auto split: if_splits)

lemma update_one_absent: "findOne docs i = None \<Longrightarrow> update_one i f docs = docs"
  unfolding findOne_def by (induction docs) (auto split: if_splits)

lemma findOne_append_new:
  "list_all (\<lambda>d. oid d < n) docs \<Longrightarrow> oid d = n \<Longrightarrow> findOne (docs @ [d]) n = Some d"
  unfolding findOne_def by (induction docs) auto

lemma findById_ObjectId [simp]: "findById docs (ObjectId i) = Inr (findOne docs i)"
  by (simp add: findById_def)

lemma findById_NotObjectId [simp]: "findById docs (NotObjectId s) = Inl CastError"
  by (simp add: findById_def)

lemma findByIdAndDelete_ObjectId:
  "findByIdAndDelete docs (ObjectId i) = Inr (findOne docs i, delete_one i docs)"
  by (simp add: findByIdAndDelete_def)

lemma findByIdAndDelete_NotObjectId: "findByIdAndDelete docs (NotObjectId s) = Inl CastError"
  by (simp add: findByIdAndDelete_def)

lemma findByIdAndUpdate_ObjectId:
  "findByIdAndUpdate valid f docs (ObjectId i) =
     (if \<not> valid then Inl ValidationError
      else Inr (map_option f (findOne docs i), update_one i f docs))"
  by (simp add: findByIdAndUpdate_def)

lemma Model_create_Object:
  "Model_create new n (Object b) =
     (case new n b of Inl e \<Rightarrow> ([], n, Inl e) | Inr d \<Rightarrow> ([d], Suc n, Inr (Single d)))"
  by (simp add: Model_create_def)

text \<open>
  An array with an element that the cast rejects makes \<^verbatim>\<open>Model.create\<close> throw, whatever
  it saves of the other elements.
\<close>

lemma create_many_rejects:
  assumes "b \<in> set bs" and "\<And>n. new n b = Inl ValidationError"
    and "\<And>n b' e. new n b' = Inl e \<Longrightarrow> e = ValidationError"
  shows "snd (snd (create_many new n bs)) = Some ValidationError"
  using assms(1)
proof (induction bs arbitrary: n)
  case Nil
  then show ?case by simp
next
  case (Cons c bs)
  show ?case
  proof (cases "new n c")
    case (Inl e)
    then have "e = ValidationError" by (rule assms(3))
    with Inl show ?thesis by (auto split: prod.splits)
  next
    case (Inr d)
    then have "c \<noteq> b" using assms(2) [of n] by auto
    with Cons.prems have "b \<in> set bs" by simp
    then have "snd (snd (create_many new (Suc n) bs)) = Some ValidationError"
      by (rule Cons.IH)
    with Inr show ?thesis by (auto split: prod.splits)
  qed
qed

lemma Model_create_Array_rejects:
  assumes "b \<in> set bs" and "\<And>n. new n b = Inl ValidationError"
    and "\<And>n b' e. new n b' = Inl e \<Longrightarrow> e = ValidationError"
  shows "snd (snd (Model_create new n (Array bs))) = Inl ValidationError"
proof -
  have "snd (snd (create_many new n bs)) = Some ValidationError"
    using assms by (rule create_many_rejects)
  then show ?thesis
    by (auto simp: Model_create_def split: prod.splits option.splits)
qed

lemma create_many_accepts:
  assumes "\<And>n b. b \<in> set bs \<Longrightarrow> new n b = Inr (mk n b)"
  shows "create_many new n bs =
           (map (\<lambda>(k, b). mk k b) (enumerate n bs), n + length bs, None)"
  using assms by (induction bs arbitrary: n) simp_all

lemma findOne_nth:
  "distinct (map oid ds) \<Longrightarrow> k < length ds \<Longrightarrow> findOne ds (oid (ds ! k)) = Some (ds ! k)"
  unfolding findOne_def find_Some_iff
  by (auto simp: distinct_conv_nth intro!: exI [of _ k])

lemma findOne_append_fresh:
  "list_all (\<lambda>d. oid d < n) docs \<Longrightarrow> n \<le> i \<Longrightarrow> findOne (docs @ ds) i = findOne ds i"
  unfolding findOne_def by (induction docs) auto

lemma protect_Inr: "protect st cred = Inr u \<Longrightarrow> findOne (users st) (oid u) = Some u"
  unfolding protect_def by (auto split: option.splits dest: findOne_Some)

lemma protect_users: "users st' = users st \<Longrightarrow> protect st' cred = protect st cred"
  unfolding protect_def by (simp split: option.splits)

lemma admin_write_forbidden:
  "protect st cred = Inr u \<Longrightarrow> role u \<noteq> ''admin'' \<Longrightarrow>
   admin_write st cred handler = (st, json_fail 403 (Text ''Forbidden''))"
  unfolding admin_write_def protected_write_def authorize_def by simp

lemma admin_write_admin:
  "protect st cred = Inr u \<Longrightarrow> role u = ''admin'' \<Longrightarrow> admin_write st cred handler = handler u"
  unfolding admin_write_def protected_write_def authorize_def by simp

lemma protected_write_Inr:
  "protect st cred = Inr u \<Longrightarrow> protected_write st cred handler = handler u"
  unfolding protected_write_def by simp

lemma protected_read_Inr:
  "protect st cred = Inr u \<Longrightarrow> protected_read st cred handler = handler u"
  unfolding protected_read_def by simp

lemmas example_defs = campus_def alice_def bob_def root_def tutor_def math_def physics_def
  hw1_def hw2_def hw3_def midterm_def quiz_def

lemma protect_campus:
  "protect campus (Some 1) = Inr alice" "protect campus (Some 2) = Inr bob"
  "protect campus (Some 3) = Inr root" "protect campus (Some 4) = Inr tutor"
  by (simp_all add: protect_def findOne_def example_defs)


lemma populate_createdBy_protected:
  "protect st cred = Inr u \<Longrightarrow> users st' = users st \<Longrightarrow>
   populate_createdBy st' (oid u) =
     Some \<lparr>oid = oid u, ref_user_name = user_name u, ref_email = email u\<rparr>"
  by (simp add: populate_createdBy_def protect_Inr)

lemma findOne_update_one:
  "findOne docs i = Some d \<Longrightarrow> oid (f d) = i \<Longrightarrow>
   findOne (update_one i f docs) i = Some (f d)"
  unfolding findOne_def by (induction docs) (auto split: if_splits)

lemma oid_set_assignment: "oid (set_assignment b a) = oid a"
  by (simp add: set_assignment_def)

lemma fails_with_500_json_fail [simp]:
  "fails_with_500 st (st, json_fail 500 (ErrorMessage ValidationError))"
  by (simp add: fails_with_500_def json_fail_def)

lemma date_lt_iff: "date_lt d now \<longleftrightarrow> (\<exists>t. d = Some t \<and> t < now)"
  by (cases d) (simp_all add: date_lt_def)

lemma dueDate_populate: "dueDate (populate_assignment st a) = dueDate a"
  by (simp add: populate_assignment_def)

lemma date_populate: "date (populate_exam st e) = date e"
  by (simp add: populate_exam_def)

lemma sorted_map_populate_assignment:
  "sorted (map dueDate (map (populate_assignment st) (sort_key dueDate xs)))"
  by (simp add: o_def dueDate_populate)

lemma sorted_map_populate_exam:
  "sorted (map date (map (populate_exam st) (sort_key date xs)))"
  by (simp add: o_def date_populate)

lemma sorted_descending:
  "sorted (rev (map createdAt (sort_key (\<lambda>s. - createdAt s) (xs :: subject list))))"
proof -
  have "sorted (map (\<lambda>s. - createdAt s) (sort_key (\<lambda>s. - createdAt s) xs))"
    by (rule sorted_sort_key)
  then show ?thesis
    by (simp add: sorted_wrt_rev sorted_wrt_map rev_map [symmetric])
qed

lemma overdue_iff:
  "overdue now a \<longleftrightarrow>
     (\<exists>t. dueDate a = Some t \<and> t < now) \<and> status a \<noteq> Some ''completed''"
  by (simp add: overdue_def date_lt_iff)

lemma json_list_inject: "json_list ds = json_list es \<Longrightarrow> ds = es"
  by (simp add: json_list_def)

subsection \<open>The assignment update and the ownership test\<close>

text \<open>
  An update that passes the ownership test and the validators sets \<open>createdBy\<close> to the
  value the body carries; a body without one leaves it as it is.
\<close>

lemma update_sets_creator:
  assumes "protect st cred = Inr u" and "findOne (assignments st) i = Some a"
    and "role u = ''student'' \<longrightarrow> createdBy a = oid u"
    and "update_ok sc b" and "body_createdBy b = Some c"
  shows "fst (snd (PUT_assignments_id sc st cred (ObjectId i) b)) = 200 \<and>
         map_option createdBy (findOne (assignments (fst (PUT_assignments_id sc st cred (ObjectId i) b))) i)
           = Some c"
proof -
  have put: "PUT_assignments_id sc st cred (ObjectId i) b =
      (st\<lparr>assignments := update_one i (set_assignment b) (assignments st)\<rparr>,
       json_data 200 (One (populate_assignment
         (st\<lparr>assignments := update_one i (set_assignment b) (assignments st)\<rparr>)
         (set_assignment b a))))"
    using assms(1-4)
    by (auto simp: PUT_assignments_id_def protected_write_Inr update_assignment_def
        findByIdAndUpdate_ObjectId nullable_def Let_def)
  have "oid a = i" using assms(2) by (simp add: findOne_Some)
  then have "findOne (update_one i (set_assignment b) (assignments st)) i =
      Some (set_assignment b a)"
    using assms(2) by (simp add: findOne_update_one oid_set_assignment)
  then show ?thesis
    using assms(5) by (simp add: put json_data_def set_assignment_def)
qed

lemma update_keeps_creator:
  assumes "protect st cred = Inr u" and "findOne (assignments st) i = Some a"
    and "body_createdBy b = None"
  shows "map_option createdBy (findOne (assignments (fst (PUT_assignments_id sc st cred (ObjectId i) b))) i)
           = Some (createdBy a)"
proof -
  have "oid a = i" using assms(2) by (simp add: findOne_Some)
  then have "findOne (update_one i (set_assignment b) (assignments st)) i =
      Some (set_assignment b a)"
    using assms(2) by (simp add: findOne_update_one oid_set_assignment)
  then show ?thesis
    using assms
    by (auto simp: PUT_assignments_id_def protected_write_Inr update_assignment_def
        findByIdAndUpdate_ObjectId Let_def set_assignment_def)
qed

text \<open>
  What the two routes answer to a student who is not the creator, and to an
  administrator. The read route compares the populated creator, the update route the
  stored id.
\<close>

lemma student_forbidden_admin_allowed:
  assumes "protect st cred = Inr u" and "findOne (assignments st) i = Some a"
  shows "(role u = ''student'' \<and> createdBy a \<noteq> oid u \<longrightarrow>
            PUT_assignments_id sc st cred (ObjectId i) b =
              (st, json_fail 403 (Text ''Not authorized to update this assignment'')) \<and>
            GET_assignments_id st cred (ObjectId i) =
              (if findOne (users st) (createdBy a) = None
               then json_fail 500 (ErrorMessage TypeError)
               else json_fail 403 (Text ''Not authorized to view this assignment''))) \<and>
         (role u = ''admin'' \<longrightarrow>
            GET_assignments_id st cred (ObjectId i) = json_data 200 (One (populate_assignment st a)) \<and>
            PUT_assignments_id sc st cred (ObjectId i) b =
              (if update_ok sc b
               then (st\<lparr>assignments := update_one i (set_assignment b) (assignments st)\<rparr>,
                     json_data 200 (One (populate_assignment
                       (st\<lparr>assignments := update_one i (set_assignment b) (assignments st)\<rparr>)
                       (set_assignment b a))))
               else (st, json_fail 500 (ErrorMessage ValidationError))))"
proof (intro conjI impI)
  assume s: "role u = ''student'' \<and> createdBy a \<noteq> oid u"
  show "PUT_assignments_id sc st cred (ObjectId i) b =
      (st, json_fail 403 (Text ''Not authorized to update this assignment''))"
    using assms s
    by (simp add: PUT_assignments_id_def protected_write_Inr update_assignment_def)
  show "GET_assignments_id st cred (ObjectId i) =
      (if findOne (users st) (createdBy a) = None
       then json_fail 500 (ErrorMessage TypeError)
       else json_fail 403 (Text ''Not authorized to view this assignment''))"
    using assms s
    by (auto simp: GET_assignments_id_def protected_read_Inr getById_assignment_def
        populate_assignment_def populate_createdBy_def Let_def
        split: option.splits dest: findOne_Some)
next
  assume r: "role u = ''admin''"
  show "GET_assignments_id st cred (ObjectId i) = json_data 200 (One (populate_assignment st a))"
    using assms r
    by (simp add: GET_assignments_id_def protected_read_Inr getById_assignment_def)
  show "PUT_assignments_id sc st cred (ObjectId i) b =
      (if update_ok sc b
       then (st\<lparr>assignments := update_one i (set_assignment b) (assignments st)\<rparr>,
             json_data 200 (One (populate_assignment
               (st\<lparr>assignments := update_one i (set_assignment b) (assignments st)\<rparr>)
               (set_assignment b a))))
       else (st, json_fail 500 (ErrorMessage ValidationError)))"
    using assms r
    by (simp add: PUT_assignments_id_def protected_write_Inr update_assignment_def
        findByIdAndUpdate_ObjectId nullable_def Let_def)
qed

section \<open>The creator of an assignment\<close>

text \<open>
  For an object body the handler's stamp decides the creator. For every authenticated
  requester and every object, whatever \<open>createdBy\<close> it carries: if the schema accepts
  the object as stamped with the requester's id, the route answers 201 and appends
  exactly one assignment, whose \<open>createdBy\<close> is the requester's id; on a store whose ids
  are all below the next id, the \<open>data\<close> of the answer is that assignment populated, its
  creator the requester's name and email. If the schema rejects the stamped object,
  nothing is created (500).
\<close>

lemma object_body_is_stamped:
  assumes "protect st cred = Inr u"
    and "POST_assignments sc now st cred (Object b) = (st', r)"
  shows "if create_ok sc (b\<lparr>body_createdBy := Some (oid u)\<rparr>)
         then fst r = 201 \<and>
              (\<exists>a. assignments st' = assignments st @ [a] \<and> createdBy a = oid u \<and>
                   (wf_store st \<longrightarrow>
                      data (snd r) = Some (One (populate_assignment st' a)) \<and>
                      createdBy (populate_assignment st' a) =
                        Some \<lparr>oid = oid u, ref_user_name = user_name u, ref_email = email u\<rparr>))
         else fst r = 500 \<and> \<not> success (snd r) \<and> st' = st"
proof (cases "create_ok sc (b\<lparr>body_createdBy := Some (oid u)\<rparr>)")
  case False
  then show ?thesis
    using assms
    by (auto simp: POST_assignments_def protected_write_Inr create_assignment_def
        Model_create_Object new_assignment_def json_fail_def)
next
  case True
  define body where "body = b\<lparr>body_createdBy := Some (oid u)\<rparr>"
  define a :: stored_assignment where "a = \<lparr>oid = next_oid st, createdAt = now,
      title = merge (body_title body) (body_title (defaults sc)),
      description = merge (body_description body) (body_description (defaults sc)),
      subject = merge (body_subject body) (body_subject (defaults sc)),
      createdBy = oid u,
      dueDate = merge (body_dueDate body) (body_dueDate (defaults sc)),
      status = merge (body_status body) (body_status (defaults sc))\<rparr>"
  have new: "new_assignment sc (next_oid st) now body = Inr a"
    using True by (simp add: new_assignment_def body_def a_def)
  have post: "POST_assignments sc now st cred (Object b) =
      (st\<lparr>assignments := assignments st @ [a], next_oid := Suc (next_oid st)\<rparr>,
       json_data 201 (nullable (map_option
         (populate_assignment (st\<lparr>assignments := assignments st @ [a],
                                   next_oid := Suc (next_oid st)\<rparr>))
         (findOne (assignments st @ [a]) (oid a)))))"
    using assms(1) new
    by (simp add: POST_assignments_def protected_write_Inr create_assignment_def
        Model_create_Object Let_def body_def [symmetric])
  have st': "st' = st\<lparr>assignments := assignments st @ [a], next_oid := Suc (next_oid st)\<rparr>"
    and r: "r = json_data 201 (nullable (map_option (populate_assignment st')
                 (findOne (assignments st @ [a]) (oid a))))"
    using post assms(2) by simp_all
  have stored: "assignments st' = assignments st @ [a]" "createdBy a = oid u"
    by (simp_all add: st' a_def)
  have status: "fst r = 201" by (simp add: r json_data_def)
  have resp: "data (snd r) = Some (One (populate_assignment st' a))" if "wf_store st"
  proof -
    have "list_all (\<lambda>d. oid d < next_oid st) (assignments st)"
      using that by (simp add: wf_store_def fresh_ids_def)
    then have "findOne (assignments st @ [a]) (oid a) = Some a"
      using findOne_append_new [of "next_oid st" "assignments st" a] by (simp add: a_def)
    then show ?thesis by (simp add: r json_data_def nullable_def)
  qed
  have "users st' = users st" by (simp add: st')
  then have owner: "createdBy (populate_assignment st' a) =
      Some \<lparr>oid = oid u, ref_user_name = user_name u, ref_email = email u\<rparr>"
    using populate_createdBy_protected [OF assms(1), of st']
    by (simp add: populate_assignment_def stored(2))
  show ?thesis
    using True status stored resp owner by auto
qed

text \<open>
  C1. The claim is that the created record's \<open>createdBy\<close> is the requester's id whatever
  the body holds. For an array body it is not: the handler's stamp lands on the array,
  \<^verbatim>\<open>Assignment.create\<close> saves each element as the client wrote it, and the re-read by
  the \<^verbatim>\<open>_id\<close> of an array finds nothing. The first student posts an array of one essay
  that names the second student as its creator; the route answers 201 with \<open>data\<close> null,
  and the assignment stored under the new id 30 has the second student as its creator.
\<close>

theorem array_body_keeps_client_creator:
  "protect campus (Some 1) = Inr alice \<and> oid alice = 1 \<and> body_createdBy essay = Some 2 \<and>
   findOne (assignments campus) 30 = None \<and>
   fst (snd (POST_assignments assignment_schema 77 campus (Some 1) (Array [essay]))) = 201 \<and>
   data (snd (snd (POST_assignments assignment_schema 77 campus (Some 1) (Array [essay])))) =
     Some Null \<and>
   map_option createdBy
     (findOne
        (assignments (fst (POST_assignments assignment_schema 77 campus (Some 1) (Array [essay]))))
        30) = Some 2"
proof -
  have p: "protect campus (Some 1) = Inr alice" by (rule protect_campus)
  have n: "next_oid campus = 30" and docs: "assignments campus = [hw1, hw2, hw3]"
    by (simp_all add: campus_def)
  have new: "new_assignment assignment_schema 30 77 essay =
      Inr \<lparr>oid = 30, createdAt = 77, title = Some ''Essay'', description = None,
           subject = Some 10, createdBy = 2, dueDate = Some 400, status = Some ''pending''\<rparr>"
    by (simp add: new_assignment_def assignment_schema_def essay_def status_ok_def merge_def
        no_assignment_body_def)
  have post: "POST_assignments assignment_schema 77 campus (Some 1) (Array [essay]) =
      (campus\<lparr>assignments := assignments campus @
          [\<lparr>oid = 30, createdAt = 77, title = Some ''Essay'', description = None,
            subject = Some 10, createdBy = 2, dueDate = Some 400, status = Some ''pending''\<rparr>],
          next_oid := 31\<rparr>,
       json_data 201 Null)"
    unfolding POST_assignments_def protected_write_Inr [OF p]
    by (simp add: create_assignment_def Model_create_def n new nullable_def)
  have old: "findOne (assignments campus) 30 = None"
    by (simp add: findOne_def docs) (simp add: hw1_def hw2_def hw3_def)
  have stored: "map_option createdBy
     (findOne
        (assignments (fst (POST_assignments assignment_schema 77 campus (Some 1) (Array [essay]))))
        30) = Some 2"
    unfolding post by (simp add: findOne_def docs) (simp add: hw1_def hw2_def hw3_def)
  have answer:
    "fst (snd (POST_assignments assignment_schema 77 campus (Some 1) (Array [essay]))) = 201"
    "data (snd (snd (POST_assignments assignment_schema 77 campus (Some 1) (Array [essay])))) =
       Some Null"
    unfolding post by (simp_all add: json_data_def)
  have "oid alice = 1" by (simp add: alice_def)
  moreover have "body_createdBy essay = Some 2" by (simp add: essay_def)
  ultimately show ?thesis
    using p old stored answer by blast
qed

section \<open>The creator after an update\<close>

text \<open>
  C2. The claim is that no update changes \<open>createdBy\<close>. The update route hands the body
  to \<^verbatim>\<open>findByIdAndUpdate\<close> as it came, so a body that carries \<open>createdBy\<close> replaces
  it: in the example store the first student, creator of assignment 20, sends
  \<^verbatim>\<open>{createdBy: 2}\<close>; the route answers 200 and the stored assignment now names the
  second student as its creator.
\<close>

theorem update_replaces_creator:
  "map_option createdBy (findOne (assignments campus) 20) = Some 1 \<and>
   protect campus (Some 1) = Inr alice \<and> role alice = ''student'' \<and>
   body_createdBy handover = Some 2 \<and>
   fst (snd (PUT_assignments_id assignment_schema campus (Some 1) (ObjectId 20) handover)) = 200 \<and>
   map_option createdBy
     (findOne (assignments (fst (PUT_assignments_id assignment_schema campus (Some 1) (ObjectId 20) handover)))
        20) = Some 2"
proof -
  have p: "protect campus (Some 1) = Inr alice" by (rule protect_campus)
  have f: "findOne (assignments campus) 20 = Some hw1"
    by (simp add: findOne_def example_defs)
  have o: "role alice = ''student'' \<longrightarrow> createdBy hw1 = oid alice"
    by (simp add: hw1_def alice_def)
  have v: "update_ok assignment_schema handover"
    by (simp add: assignment_schema_def handover_def no_assignment_body_def status_ok_def)
  have b: "body_createdBy handover = Some 2"
    by (simp add: handover_def no_assignment_body_def)
  have "map_option createdBy (findOne (assignments campus) 20) = Some 1"
    by (simp add: f hw1_def)
  moreover have "role alice = ''student''" by (simp add: alice_def)
  ultimately show ?thesis
    using update_sets_creator [OF p f o v b] p b by simp
qed

section \<open>Students and assignments of others\<close>

text \<open>
  C3. The claim is that a student who reads an assignment created by someone else gets
  403. When the creator matches no user the read route answers 500 instead: the
  populated \<open>createdBy\<close> is null and the ownership test dereferences it. The update
  route, which compares the stored id, answers 403 in the same store. The second student
  reads assignment 20 once its creator's account is gone, and once its creator has
  handed it to an id that no user has.
\<close>

theorem student_view_of_orphan_is_500:
  "protect campus_without_alice (Some 2) = Inr bob \<and> role bob = ''student'' \<and>
   map_option createdBy (findOne (assignments campus_without_alice) 20) = Some 1 \<and>
   findOne (users campus_without_alice) 1 = None \<and>
   GET_assignments_id campus_without_alice (Some 2) (ObjectId 20) = json_fail 500 (ErrorMessage TypeError) \<and>
   PUT_assignments_id assignment_schema campus_without_alice (Some 2) (ObjectId 20) done_body =
     (campus_without_alice, json_fail 403 (Text ''Not authorized to update this assignment'')) \<and>
   fst (snd (PUT_assignments_id assignment_schema campus (Some 1) (ObjectId 20) giveaway)) = 200 \<and>
   GET_assignments_id (fst (PUT_assignments_id assignment_schema campus (Some 1) (ObjectId 20) giveaway))
     (Some 2) (ObjectId 20) = json_fail 500 (ErrorMessage TypeError)"
proof -
  have users: "users campus_without_alice = [bob, root, tutor]"
    and docs: "assignments campus_without_alice = [hw1, hw2, hw3]"
    by (simp_all add: campus_without_alice_def campus_def)
  have p: "protect campus_without_alice (Some 2) = Inr bob"
    by (simp add: protect_def findOne_def users) (simp add: bob_def)
  have r: "role bob = ''student''" by (simp add: bob_def)
  have f: "findOne (assignments campus_without_alice) 20 = Some hw1"
    by (simp add: findOne_def docs) (simp add: hw1_def)
  have n: "findOne (users campus_without_alice) 1 = None"
    by (simp add: findOne_def users) (simp add: bob_def root_def tutor_def)
  have o: "createdBy hw1 \<noteq> oid bob" "createdBy hw1 = 1" by (simp_all add: hw1_def bob_def)
  note t = student_forbidden_admin_allowed [OF p f, of assignment_schema done_body]
  have g: "GET_assignments_id campus_without_alice (Some 2) (ObjectId 20) =
      json_fail 500 (ErrorMessage TypeError)"
    using t r o n by simp
  have u: "PUT_assignments_id assignment_schema campus_without_alice (Some 2) (ObjectId 20) done_body =
     (campus_without_alice, json_fail 403 (Text ''Not authorized to update this assignment''))"
    using t r o by simp
  have pa: "protect campus (Some 1) = Inr alice" by (rule protect_campus)
  have fa: "findOne (assignments campus) 20 = Some hw1"
    by (simp add: findOne_def example_defs)
  have oa: "role alice = ''student'' \<longrightarrow> createdBy hw1 = oid alice"
    by (simp add: hw1_def alice_def)
  have v: "update_ok assignment_schema giveaway"
    by (simp add: assignment_schema_def giveaway_def no_assignment_body_def status_ok_def)
  have b: "body_createdBy giveaway = Some 99"
    by (simp add: giveaway_def no_assignment_body_def)
  define st1 where "st1 = fst (PUT_assignments_id assignment_schema campus (Some 1) (ObjectId 20) giveaway)"
  have s1: "fst (snd (PUT_assignments_id assignment_schema campus (Some 1) (ObjectId 20) giveaway)) = 200"
    and c1: "map_option createdBy (findOne (assignments st1) 20) = Some 99"
    using update_sets_creator [OF pa fa oa v b] by (simp_all add: st1_def)
  have users1: "users st1 = users campus"
    using pa fa oa v
    by (simp add: st1_def PUT_assignments_id_def protected_write_Inr update_assignment_def
        findByIdAndUpdate_ObjectId Let_def)
  from c1 obtain a1 where a1: "findOne (assignments st1) 20 = Some a1" "createdBy a1 = 99"
    by auto
  have p1: "protect st1 (Some 2) = Inr bob"
    using protect_users [OF users1] protect_campus(2) by simp
  have n1: "findOne (users st1) (createdBy a1) = None"
    by (simp add: users1 a1(2) findOne_def example_defs)
  have "createdBy a1 \<noteq> oid bob" by (simp add: a1(2) bob_def)
  then have g1: "GET_assignments_id st1 (Some 2) (ObjectId 20) = json_fail 500 (ErrorMessage TypeError)"
    using student_forbidden_admin_allowed [OF p1 a1(1), of assignment_schema done_body] r n1
    by simp
  from p r f n g u s1 g1 o show ?thesis by (simp add: st1_def)
qed

section \<open>Deleting is for administrators\<close>

text \<open>
  C4. For every authenticated requester whose role is not \<^verbatim>\<open>admin\<close>, the delete
  route of subjects, of exams and of assignments answers 403 with \<open>success = False\<close> and
  leaves the store as it was, whatever the id (one that casts to an ObjectId or not): no
  exception is made for the creator of the assignment. The refusal is \<^verbatim>\<open>authorize('admin')\<close>, placed before the handler
  in each of the three routes.
\<close>

theorem delete_requires_admin:
  assumes "protect st cred = Inr u" and "role u \<noteq> ''admin''"
  shows "fst (DELETE_subjects_id st cred i) = st \<and>
         fst (snd (DELETE_subjects_id st cred i)) = 403 \<and>
         \<not> success (snd (snd (DELETE_subjects_id st cred i))) \<and>
         fst (DELETE_exams_id st cred j) = st \<and>
         fst (snd (DELETE_exams_id st cred j)) = 403 \<and>
         \<not> success (snd (snd (DELETE_exams_id st cred j))) \<and>
         fst (DELETE_assignments_id st cred k) = st \<and>
         fst (snd (DELETE_assignments_id st cred k)) = 403 \<and>
         \<not> success (snd (snd (DELETE_assignments_id st cred k)))"
  using assms
  unfolding DELETE_subjects_id_def DELETE_exams_id_def DELETE_assignments_id_def
  by (simp add: admin_write_forbidden json_fail_def)

text \<open>The first student may not delete their own assignment.\<close>

theorem delete_requires_admin_witness:
  "protect campus (Some 1) = Inr alice \<and> role alice \<noteq> ''admin'' \<and>
   findOne (assignments campus) 20 = Some hw1 \<and> createdBy hw1 = oid alice \<and>
   fst (DELETE_assignments_id campus (Some 1) (ObjectId 20)) = campus \<and>
   fst (snd (DELETE_assignments_id campus (Some 1) (ObjectId 20))) = 403 \<and>
   fst (snd (DELETE_subjects_id campus (Some 1) (ObjectId 10))) = 403 \<and>
   fst (snd (DELETE_exams_id campus (Some 1) (ObjectId 25))) = 403"
proof -
  have p: "protect campus (Some 1) = Inr alice" by (rule protect_campus)
  have r: "role alice \<noteq> ''admin''" by (simp add: alice_def)
  have f: "findOne (assignments campus) 20 = Some hw1"
    by (simp add: findOne_def example_defs)
  have c: "createdBy hw1 = oid alice" by (simp add: hw1_def alice_def)
  from delete_requires_admin [OF p r, of "ObjectId 10" "ObjectId 25" "ObjectId 20"] p r f c show ?thesis by blast
qed

section \<open>Roles other than student and admin\<close>

text \<open>
  C5. For an authenticated requester whose role is neither \<^verbatim>\<open>student\<close> nor
  \<^verbatim>\<open>admin\<close>, and any existing assignment, whoever created it: reading it answers 200
  with the populated assignment; updating it never answers 403, and what it answers does
  not mention the requester at all: 200 with the updated assignment when the validators
  accept the body, the generic 500 when they reject it.
\<close>

theorem other_roles_skip_ownership:
  assumes "protect st cred = Inr u" and "role u \<noteq> ''student''" and "role u \<noteq> ''admin''"
    and "findOne (assignments st) i = Some a"
  shows "GET_assignments_id st cred (ObjectId i) = json_data 200 (One (populate_assignment st a)) \<and>
         fst (snd (PUT_assignments_id sc st cred (ObjectId i) b)) \<noteq> 403 \<and>
         PUT_assignments_id sc st cred (ObjectId i) b =
           (if update_ok sc b
            then (st\<lparr>assignments := update_one i (set_assignment b) (assignments st)\<rparr>,
                  json_data 200 (One (populate_assignment
                    (st\<lparr>assignments := update_one i (set_assignment b) (assignments st)\<rparr>)
                    (set_assignment b a))))
            else (st, json_fail 500 (ErrorMessage ValidationError)))"
proof -
  have get: "GET_assignments_id st cred (ObjectId i) = json_data 200 (One (populate_assignment st a))"
    using assms
    by (simp add: GET_assignments_id_def protected_read_Inr getById_assignment_def)
  have put: "PUT_assignments_id sc st cred (ObjectId i) b =
           (if update_ok sc b
            then (st\<lparr>assignments := update_one i (set_assignment b) (assignments st)\<rparr>,
                  json_data 200 (One (populate_assignment
                    (st\<lparr>assignments := update_one i (set_assignment b) (assignments st)\<rparr>)
                    (set_assignment b a))))
            else (st, json_fail 500 (ErrorMessage ValidationError)))"
    using assms
    by (simp add: PUT_assignments_id_def protected_write_Inr update_assignment_def
        findByIdAndUpdate_ObjectId nullable_def Let_def)
  have "fst (snd (PUT_assignments_id sc st cred (ObjectId i) b)) \<noteq> 403"
    by (simp add: put json_data_def json_fail_def)
  with get put show ?thesis by blast
qed


text \<open>A teacher reads and completes the first student's assignment.\<close>

theorem other_roles_skip_ownership_witness:
  "protect campus (Some 4) = Inr tutor \<and> role tutor \<noteq> ''student'' \<and> role tutor \<noteq> ''admin'' \<and>
   findOne (assignments campus) 20 = Some hw1 \<and> createdBy hw1 \<noteq> oid tutor \<and>
   update_ok assignment_schema done_body \<and>
   GET_assignments_id campus (Some 4) (ObjectId 20) = json_data 200 (One (populate_assignment campus hw1)) \<and>
   fst (snd (PUT_assignments_id assignment_schema campus (Some 4) (ObjectId 20) done_body)) = 200 \<and>
   map status (assignments (fst (PUT_assignments_id assignment_schema campus (Some 4) (ObjectId 20) done_body)))
     = [Some ''completed'', Some ''completed'', None]"
proof -
  have p: "protect campus (Some 4) = Inr tutor" by (rule protect_campus)
  have r: "role tutor \<noteq> ''student''" "role tutor \<noteq> ''admin''" by (simp_all add: tutor_def)
  have f: "findOne (assignments campus) 20 = Some hw1"
    by (simp add: findOne_def example_defs)
  have o: "createdBy hw1 \<noteq> oid tutor" by (simp add: hw1_def tutor_def)
  have v: "update_ok assignment_schema done_body"
    by (simp add: assignment_schema_def done_body_def no_assignment_body_def status_ok_def)
  note t = other_roles_skip_ownership [OF p r f, of assignment_schema done_body]
  have put: "PUT_assignments_id assignment_schema campus (Some 4) (ObjectId 20) done_body =
      (campus\<lparr>assignments := update_one 20 (set_assignment done_body) (assignments campus)\<rparr>,
       json_data 200 (One (populate_assignment
         (campus\<lparr>assignments := update_one 20 (set_assignment done_body) (assignments campus)\<rparr>)
         (set_assignment done_body hw1))))"
    using t v by simp
  have s: "fst (snd (PUT_assignments_id assignment_schema campus (Some 4) (ObjectId 20) done_body)) = 200"
    by (simp add: put json_data_def)
  have m: "map status
      (assignments (fst (PUT_assignments_id assignment_schema campus (Some 4) (ObjectId 20) done_body)))
     = [Some ''completed'', Some ''completed'', None]"
    unfolding put
    by (simp add: example_defs set_assignment_def done_body_def no_assignment_body_def
        merge_def)
  from t p r f o v s m show ?thesis by blast
qed

section \<open>Overdue assignments\<close>

text \<open>
  C6. For an authenticated requester the overdue route answers 200 with a list that has,
  as a multiset, exactly the populated assignments whose due date is strictly before the
  current time and whose status is not \<^verbatim>\<open>completed\<close>: for a student those among the
  assignments the student created, for an administrator those among all assignments.
  Nothing else is in the list, nothing is missing and nothing is repeated.
\<close>

theorem overdue_is_exact:
  assumes "protect st cred = Inr u"
  shows "(role u = ''student'' \<longrightarrow>
            (\<exists>ds. GET_assignments_overdue now st cred = json_list ds \<and>
                  mset ds = image_mset (populate_assignment st)
                    (filter_mset
                       (\<lambda>a. createdBy a = oid u \<and> (\<exists>t. dueDate a = Some t \<and> t < now) \<and>
                            status a \<noteq> Some ''completed'')
                       (mset (assignments st))))) \<and>
         (role u = ''admin'' \<longrightarrow>
            (\<exists>ds. GET_assignments_overdue now st cred = json_list ds \<and>
                  mset ds = image_mset (populate_assignment st)
                    (filter_mset
                       (\<lambda>a. (\<exists>t. dueDate a = Some t \<and> t < now) \<and>
                            status a \<noteq> Some ''completed'')
                       (mset (assignments st)))))"
proof (intro conjI impI)
  assume "role u = ''student''"
  then have "GET_assignments_overdue now st cred =
      json_list (map (populate_assignment st) (sort_key dueDate
        (filter (\<lambda>a. createdBy a = oid u \<and> overdue now a) (assignments st))))"
    using assms
    by (simp add: GET_assignments_overdue_def protected_read_Inr overdue_assignments_def)
  moreover have "mset (map (populate_assignment st) (sort_key dueDate
        (filter (\<lambda>a. createdBy a = oid u \<and> overdue now a) (assignments st)))) =
      image_mset (populate_assignment st)
        (filter_mset
           (\<lambda>a. createdBy a = oid u \<and> (\<exists>t. dueDate a = Some t \<and> t < now) \<and>
                status a \<noteq> Some ''completed'')
           (mset (assignments st)))"
    by (simp add: overdue_iff)
  ultimately show "\<exists>ds. GET_assignments_overdue now st cred = json_list ds \<and>
      mset ds = image_mset (populate_assignment st)
        (filter_mset
           (\<lambda>a. createdBy a = oid u \<and> (\<exists>t. dueDate a = Some t \<and> t < now) \<and>
                status a \<noteq> Some ''completed'')
           (mset (assignments st)))"
    by blast
next
  assume "role u = ''admin''"
  then have "GET_assignments_overdue now st cred =
      json_list (map (populate_assignment st) (sort_key dueDate
        (filter (overdue now) (assignments st))))"
    using assms
    by (simp add: GET_assignments_overdue_def protected_read_Inr overdue_assignments_def)
  moreover have "mset (map (populate_assignment st) (sort_key dueDate
        (filter (overdue now) (assignments st)))) =
      image_mset (populate_assignment st)
        (filter_mset
           (\<lambda>a. (\<exists>t. dueDate a = Some t \<and> t < now) \<and> status a \<noteq> Some ''completed'')
           (mset (assignments st)))"
    by (simp add: overdue_iff)
  ultimately show "\<exists>ds. GET_assignments_overdue now st cred = json_list ds \<and>
      mset ds = image_mset (populate_assignment st)
        (filter_mset
           (\<lambda>a. (\<exists>t. dueDate a = Some t \<and> t < now) \<and> status a \<noteq> Some ''completed'')
           (mset (assignments st)))"
    by blast
qed


text \<open>
  At time 200 the first student has one overdue assignment (the other is completed); the
  administrator sees it and the second student's, whose status is not set.
\<close>

theorem overdue_is_exact_witness:
  "protect campus (Some 1) = Inr alice \<and> role alice = ''student'' \<and>
   protect campus (Some 3) = Inr root \<and> role root = ''admin'' \<and>
   GET_assignments_overdue 200 campus (Some 1) = json_list [populate_assignment campus hw1] \<and>
   image_mset (populate_assignment campus)
     (filter_mset
        (\<lambda>a. createdBy a = oid alice \<and> (\<exists>t. dueDate a = Some t \<and> t < 200) \<and>
             status a \<noteq> Some ''completed'')
        (mset (assignments campus))) = {#populate_assignment campus hw1#} \<and>
   GET_assignments_overdue 200 campus (Some 3) =
     json_list [populate_assignment campus hw3, populate_assignment campus hw1] \<and>
   image_mset (populate_assignment campus)
     (filter_mset
        (\<lambda>a. (\<exists>t. dueDate a = Some t \<and> t < 200) \<and> status a \<noteq> Some ''completed'')
        (mset (assignments campus))) =
     {#populate_assignment campus hw3, populate_assignment campus hw1#}"
proof -
  have pa: "protect campus (Some 1) = Inr alice" and pr: "protect campus (Some 3) = Inr root"
    by (rule protect_campus)+
  have ra: "role alice = ''student''" and rr: "role root = ''admin''"
    by (simp_all add: alice_def root_def)
  have ga: "GET_assignments_overdue 200 campus (Some 1) =
      json_list [populate_assignment campus hw1]"
    unfolding GET_assignments_overdue_def protected_read_Inr [OF pa] overdue_assignments_def
    by (simp add: example_defs overdue_def date_lt_def populate_assignment_def)
  have gr: "GET_assignments_overdue 200 campus (Some 3) =
      json_list [populate_assignment campus hw3, populate_assignment campus hw1]"
    unfolding GET_assignments_overdue_def protected_read_Inr [OF pr] overdue_assignments_def
    by (simp add: example_defs overdue_def date_lt_def populate_assignment_def)
  from overdue_is_exact [OF pa, of 200] ra obtain ds where
    ds: "GET_assignments_overdue 200 campus (Some 1) = json_list ds"
      "mset ds = image_mset (populate_assignment campus)
         (filter_mset
            (\<lambda>a. createdBy a = oid alice \<and> (\<exists>t. dueDate a = Some t \<and> t < 200) \<and>
                 status a \<noteq> Some ''completed'')
            (mset (assignments campus)))"
    by blast
  from overdue_is_exact [OF pr, of 200] rr obtain es where
    es: "GET_assignments_overdue 200 campus (Some 3) = json_list es"
      "mset es = image_mset (populate_assignment campus)
         (filter_mset
            (\<lambda>a. (\<exists>t. dueDate a = Some t \<and> t < 200) \<and> status a \<noteq> Some ''completed'')
            (mset (assignments campus)))"
    by blast
  have "ds = [populate_assignment campus hw1]"
    using ds(1) ga by (simp add: json_list_inject)
  then have a: "image_mset (populate_assignment campus)
     (filter_mset
        (\<lambda>a. createdBy a = oid alice \<and> (\<exists>t. dueDate a = Some t \<and> t < 200) \<and>
             status a \<noteq> Some ''completed'')
        (mset (assignments campus))) = {#populate_assignment campus hw1#}"
    using ds(2) by simp
  have "es = [populate_assignment campus hw3, populate_assignment campus hw1]"
    using es(1) gr by (simp add: json_list_inject)
  then have r: "image_mset (populate_assignment campus)
     (filter_mset
        (\<lambda>a. (\<exists>t. dueDate a = Some t \<and> t < 200) \<and> status a \<noteq> Some ''completed'')
        (mset (assignments campus))) =
     {#populate_assignment campus hw3, populate_assignment campus hw1#}"
    using es(2) by (simp add: add_mset_commute)
  from pa pr ra rr ga gr a r show ?thesis by blast
qed

section \<open>Lists\<close>

text \<open>
  C7. For an authenticated requester each list route answers 200 with the whole result,
  \<open>count\<close> being its length: the assignments in scope (the student's own, all of them for
  any other role) in ascending order of due date, all exams in ascending order of date,
  all subjects in descending order of creation time. As a multiset the list is the
  result set, so no page is cut from it. The overdue list is in ascending order of due
  date as well (C6 says what it holds).
\<close>

theorem lists_are_complete_and_sorted:
  assumes "protect st cred = Inr u"
  shows "(\<exists>ds. GET_assignments st cred = json_list ds \<and> sorted (map dueDate ds) \<and>
              mset ds = image_mset (populate_assignment st)
                (mset (if role u = ''student''
                       then filter (\<lambda>a. createdBy a = oid u) (assignments st)
                       else assignments st))) \<and>
         (\<exists>es. GET_exams st cred = json_list es \<and> sorted (map date es) \<and>
              mset es = image_mset (populate_exam st) (mset (exams st))) \<and>
         (\<exists>ss. GET_subjects st cred = json_list ss \<and> sorted (rev (map createdAt ss)) \<and>
              mset ss = mset (subjects st)) \<and>
         (\<exists>ds. GET_assignments_overdue now st cred = json_list ds \<and> sorted (map dueDate ds))"
proof (intro conjI)
  define query where "query =
    (if role u = ''student'' then filter (\<lambda>a. createdBy a = oid u) (assignments st)
     else assignments st)"
  have "GET_assignments st cred =
      json_list (map (populate_assignment st) (sort_key dueDate query))"
    using assms
    by (simp add: GET_assignments_def protected_read_Inr list_assignments_def query_def)
  moreover have "sorted (map dueDate (map (populate_assignment st) (sort_key dueDate query)))"
    by (rule sorted_map_populate_assignment)
  moreover have "mset (map (populate_assignment st) (sort_key dueDate query)) =
      image_mset (populate_assignment st) (mset query)"
    by simp
  ultimately show "\<exists>ds. GET_assignments st cred = json_list ds \<and> sorted (map dueDate ds) \<and>
      mset ds = image_mset (populate_assignment st)
        (mset (if role u = ''student''
               then filter (\<lambda>a. createdBy a = oid u) (assignments st)
               else assignments st))"
    unfolding query_def by blast
next
  have "GET_exams st cred = json_list (map (populate_exam st) (sort_key date (exams st)))"
    using assms by (simp add: GET_exams_def protected_read_Inr list_exams_def)
  moreover have "sorted (map date (map (populate_exam st) (sort_key date (exams st))))"
    by (rule sorted_map_populate_exam)
  moreover have "mset (map (populate_exam st) (sort_key date (exams st))) =
      image_mset (populate_exam st) (mset (exams st))"
    by simp
  ultimately show "\<exists>es. GET_exams st cred = json_list es \<and> sorted (map date es) \<and>
      mset es = image_mset (populate_exam st) (mset (exams st))"
    by blast
next
  have "GET_subjects st cred = json_list (sort_key (\<lambda>s. - createdAt s) (subjects st))"
    using assms by (simp add: GET_subjects_def protected_read_Inr list_subjects_def)
  moreover have
    "sorted (rev (map createdAt (sort_key (\<lambda>s. - createdAt s) (subjects st))))"
    by (rule sorted_descending)
  moreover have "mset (sort_key (\<lambda>s. - createdAt s) (subjects st)) = mset (subjects st)"
    by simp
  ultimately show "\<exists>ss. GET_subjects st cred = json_list ss \<and>
      sorted (rev (map createdAt ss)) \<and> mset ss = mset (subjects st)"
    by blast
next
  define query where "query =
    (if role u = ''student''
     then filter (\<lambda>a. createdBy a = oid u \<and> overdue now a) (assignments st)
     else filter (overdue now) (assignments st))"
  have "GET_assignments_overdue now st cred =
      json_list (map (populate_assignment st) (sort_key dueDate query))"
    using assms
    by (simp add: GET_assignments_overdue_def protected_read_Inr overdue_assignments_def
        query_def)
  moreover have "sorted (map dueDate (map (populate_assignment st) (sort_key dueDate query)))"
    by (rule sorted_map_populate_assignment)
  ultimately show
    "\<exists>ds. GET_assignments_overdue now st cred = json_list ds \<and> sorted (map dueDate ds)"
    by blast
qed


text \<open>The three lists as the first student gets them.\<close>

theorem lists_are_complete_and_sorted_witness:
  "protect campus (Some 1) = Inr alice \<and>
   GET_assignments campus (Some 1) =
     json_list [populate_assignment campus hw2, populate_assignment campus hw1] \<and>
   map dueDate [populate_assignment campus hw2, populate_assignment campus hw1] =
     [Some 90, Some 100] \<and>
   sorted (map dueDate [populate_assignment campus hw2, populate_assignment campus hw1]) \<and>
   GET_exams campus (Some 1) = json_list [populate_exam campus quiz, populate_exam campus midterm] \<and>
   sorted (map date [populate_exam campus quiz, populate_exam campus midterm]) \<and>
   GET_subjects campus (Some 1) = json_list [physics, math] \<and>
   sorted (rev (map createdAt [physics, math]))"
proof -
  have pa: "protect campus (Some 1) = Inr alice" by (rule protect_campus)
  have ra: "role alice = ''student''" by (simp add: alice_def)
  have ga: "GET_assignments campus (Some 1) =
      json_list [populate_assignment campus hw2, populate_assignment campus hw1]"
    unfolding GET_assignments_def protected_read_Inr [OF pa] list_assignments_def
    by (simp add: example_defs populate_assignment_def)
  have ge: "GET_exams campus (Some 1) =
      json_list [populate_exam campus quiz, populate_exam campus midterm]"
    unfolding GET_exams_def protected_read_Inr [OF pa] list_exams_def
    by (simp add: example_defs populate_exam_def)
  have gs: "GET_subjects campus (Some 1) = json_list [physics, math]"
    unfolding GET_subjects_def protected_read_Inr [OF pa] list_subjects_def
    by (simp add: example_defs)
  have d: "map dueDate [populate_assignment campus hw2, populate_assignment campus hw1] =
     [Some 90, Some 100]"
    by (simp add: dueDate_populate hw1_def hw2_def)
  from lists_are_complete_and_sorted [OF pa] obtain ds es ss where
    l: "GET_assignments campus (Some 1) = json_list ds" "sorted (map dueDate ds)"
       "GET_exams campus (Some 1) = json_list es" "sorted (map date es)"
       "GET_subjects campus (Some 1) = json_list ss" "sorted (rev (map createdAt ss))"
    by blast
  have "ds = [populate_assignment campus hw2, populate_assignment campus hw1]"
    "es = [populate_exam campus quiz, populate_exam campus midterm]" "ss = [physics, math]"
    using l(1,3,5) ga ge gs by (simp_all add: json_list_inject)
  with l(2,4,6) pa ga ge gs d show ?thesis by blast
qed

section \<open>Deleting what is not there\<close>

text \<open>
  C8, as stated, fails for an id that is no ObjectId: an administrator who deletes
  \<^verbatim>\<open>/api/subjects/abc\<close> gets 500, not 404, since the query throws a CastError that
  the handler's \<^verbatim>\<open>catch\<close> answers.
\<close>

theorem delete_malformed_id_is_500:
  "protect campus (Some 3) = Inr root \<and> role root = ''admin'' \<and>
   fst (snd (DELETE_subjects_id campus (Some 3) (NotObjectId ''abc''))) = 500 \<and>
   fst (snd (DELETE_subjects_id campus (Some 3) (NotObjectId ''abc''))) \<noteq> 404 \<and>
   message (snd (snd (DELETE_subjects_id campus (Some 3) (NotObjectId ''abc'')))) =
     Some (ErrorMessage CastError)"
proof -
  have p: "protect campus (Some 3) = Inr root" by (rule protect_campus)
  have r: "role root = ''admin''" by (simp add: root_def)
  have "DELETE_subjects_id campus (Some 3) (NotObjectId ''abc'') =
      (campus, json_fail 500 (ErrorMessage CastError))"
    by (simp add: DELETE_subjects_id_def admin_write_admin [OF p r] delete_subject_def
        findByIdAndDelete_NotObjectId)
  with p r show ?thesis by (simp add: json_fail_def)
qed

text \<open>
  C8, amended. When an administrator deletes an id that casts to an ObjectId and that no
  record of the collection has, the route answers 404 and the store it returns is the
  store it was given; the same request on the store returned answers 404 again and
  returns that store once more. When the id does not cast to an ObjectId, the route
  answers the generic 500 on both calls, and the store is unchanged as well. This holds
  for subjects, exams and assignments.
\<close>

theorem delete_missing_is_not_found:
  assumes "protect st cred = Inr u" and "role u = ''admin''"
  shows "(findOne (subjects st) i = None \<longrightarrow>
            DELETE_subjects_id st cred (ObjectId i) =
              (st, json_fail 404 (Text ''Subject not found'')) \<and>
            DELETE_subjects_id (fst (DELETE_subjects_id st cred (ObjectId i))) cred (ObjectId i) =
              (st, json_fail 404 (Text ''Subject not found''))) \<and>
         (findOne (exams st) i = None \<longrightarrow>
            DELETE_exams_id st cred (ObjectId i) = (st, json_fail 404 (Text ''Exam not found'')) \<and>
            DELETE_exams_id (fst (DELETE_exams_id st cred (ObjectId i))) cred (ObjectId i) =
              (st, json_fail 404 (Text ''Exam not found''))) \<and>
         (findOne (assignments st) i = None \<longrightarrow>
            DELETE_assignments_id st cred (ObjectId i) =
              (st, json_fail 404 (Text ''Assignment not found'')) \<and>
            DELETE_assignments_id (fst (DELETE_assignments_id st cred (ObjectId i))) cred
                (ObjectId i) =
              (st, json_fail 404 (Text ''Assignment not found''))) \<and>
         DELETE_subjects_id st cred (NotObjectId x) =
           (st, json_fail 500 (ErrorMessage CastError)) \<and>
         DELETE_subjects_id (fst (DELETE_subjects_id st cred (NotObjectId x))) cred
             (NotObjectId x) =
           (st, json_fail 500 (ErrorMessage CastError)) \<and>
         DELETE_exams_id st cred (NotObjectId x) =
           (st, json_fail 500 (ErrorMessage CastError)) \<and>
         DELETE_exams_id (fst (DELETE_exams_id st cred (NotObjectId x))) cred (NotObjectId x) =
           (st, json_fail 500 (ErrorMessage CastError)) \<and>
         DELETE_assignments_id st cred (NotObjectId x) =
           (st, json_fail 500 (ErrorMessage CastError)) \<and>
         DELETE_assignments_id (fst (DELETE_assignments_id st cred (NotObjectId x))) cred
             (NotObjectId x) =
           (st, json_fail 500 (ErrorMessage CastError))"
proof -
  have s: "DELETE_subjects_id st cred (ObjectId i) =
      (st, json_fail 404 (Text ''Subject not found''))"
    if "findOne (subjects st) i = None"
    using that assms
    by (simp add: DELETE_subjects_id_def admin_write_admin delete_subject_def
        findByIdAndDelete_ObjectId delete_one_absent)
  have e: "DELETE_exams_id st cred (ObjectId i) = (st, json_fail 404 (Text ''Exam not found''))"
    if "findOne (exams st) i = None"
    using that assms
    by (simp add: DELETE_exams_id_def admin_write_admin delete_exam_def
        findByIdAndDelete_ObjectId delete_one_absent)
  have a: "DELETE_assignments_id st cred (ObjectId i) =
      (st, json_fail 404 (Text ''Assignment not found''))"
    if "findOne (assignments st) i = None"
    using that assms
    by (simp add: DELETE_assignments_id_def admin_write_admin delete_assignment_def
        findByIdAndDelete_ObjectId delete_one_absent)
  have s': "DELETE_subjects_id st cred (NotObjectId x) =
      (st, json_fail 500 (ErrorMessage CastError))"
    using assms
    by (simp add: DELETE_subjects_id_def admin_write_admin delete_subject_def
        findByIdAndDelete_NotObjectId)
  have e': "DELETE_exams_id st cred (NotObjectId x) =
      (st, json_fail 500 (ErrorMessage CastError))"
    using assms
    by (simp add: DELETE_exams_id_def admin_write_admin delete_exam_def
        findByIdAndDelete_NotObjectId)
  have a': "DELETE_assignments_id st cred (NotObjectId x) =
      (st, json_fail 500 (ErrorMessage CastError))"
    using assms
    by (simp add: DELETE_assignments_id_def admin_write_admin delete_assignment_def
        findByIdAndDelete_NotObjectId)
  show ?thesis using s e a by (simp add: s' e' a')
qed

text \<open>An administrator deletes an id that nothing has, and an id that is no ObjectId.\<close>

theorem delete_missing_is_not_found_witness:
  "protect campus (Some 3) = Inr root \<and> role root = ''admin'' \<and>
   findOne (subjects campus) 99 = None \<and> findOne (exams campus) 99 = None \<and>
   findOne (assignments campus) 99 = None \<and>
   DELETE_subjects_id campus (Some 3) (ObjectId 99) =
     (campus, json_fail 404 (Text ''Subject not found'')) \<and>
   DELETE_subjects_id (fst (DELETE_subjects_id campus (Some 3) (ObjectId 99))) (Some 3)
       (ObjectId 99) =
     (campus, json_fail 404 (Text ''Subject not found'')) \<and>
   DELETE_exams_id campus (Some 3) (ObjectId 99) =
     (campus, json_fail 404 (Text ''Exam not found'')) \<and>
   DELETE_assignments_id campus (Some 3) (ObjectId 99) =
     (campus, json_fail 404 (Text ''Assignment not found'')) \<and>
   DELETE_assignments_id campus (Some 3) (NotObjectId ''xyz'') =
     (campus, json_fail 500 (ErrorMessage CastError)) \<and>
   DELETE_assignments_id (fst (DELETE_assignments_id campus (Some 3) (NotObjectId ''xyz'')))
       (Some 3) (NotObjectId ''xyz'') =
     (campus, json_fail 500 (ErrorMessage CastError))"
proof -
  have p: "protect campus (Some 3) = Inr root" by (rule protect_campus)
  have r: "role root = ''admin''" by (simp add: root_def)
  have f: "findOne (subjects campus) 99 = None" "findOne (exams campus) 99 = None"
    "findOne (assignments campus) 99 = None"
    by (simp_all add: findOne_def example_defs)
  from delete_missing_is_not_found [OF p r, of 99 "''xyz''"] p r f show ?thesis by blast
qed

section \<open>Creating a subject and reading it back\<close>



text \<open>
  The same holds element by element when the body is an array of objects that the schema
  accepts: the route answers 201 with the new subjects, and each can be fetched by its id.
\<close>

lemma subject_array_round_trip:
  assumes "protect st cred = Inr u" and "role u = ''admin''"
    and "list_all (create_ok sc) bs" and "wf_store st" and "k < length bs"
  shows "\<exists>ds. POST_subjects sc now st cred (Array bs) =
               (st\<lparr>subjects := subjects st @ ds, next_oid := next_oid st + length bs\<rparr>,
                json_data 201 (Many ds)) \<and>
              length ds = length bs \<and>
              GET_subjects_id (fst (POST_subjects sc now st cred (Array bs))) cred
                  (ObjectId (oid (ds ! k))) =
                json_data 200 (One (ds ! k)) \<and>
              (body_name (bs ! k) \<noteq> None \<longrightarrow> name (ds ! k) = body_name (bs ! k)) \<and>
              (body_code (bs ! k) \<noteq> None \<longrightarrow> code (ds ! k) = body_code (bs ! k)) \<and>
              (body_color (bs ! k) \<noteq> None \<longrightarrow> color (ds ! k) = body_color (bs ! k)) \<and>
              oid (ds ! k) = next_oid st + k \<and> createdAt (ds ! k) = now"
proof -
  define mk :: "nat \<Rightarrow> subject_body \<Rightarrow> subject" where "mk i b = \<lparr>oid = i, createdAt = now,
      name = merge (body_name b) (body_name (defaults sc)),
      code = merge (body_code b) (body_code (defaults sc)),
      color = merge (body_color b) (body_color (defaults sc))\<rparr>" for i b
  define ds where "ds = map (\<lambda>(i, b). mk i b) (enumerate (next_oid st) bs)"
  define st' where
    "st' = st\<lparr>subjects := subjects st @ ds, next_oid := next_oid st + length bs\<rparr>"
  have "new_subject sc n now b = Inr (mk n b)" if "b \<in> set bs" for n b
    using that assms(3) by (simp add: new_subject_def mk_def list_all_iff)
  then have many: "create_many (\<lambda>i. new_subject sc i now) (next_oid st) bs =
      (ds, next_oid st + length bs, None)"
    unfolding ds_def by (rule create_many_accepts)
  have post: "POST_subjects sc now st cred (Array bs) = (st', json_data 201 (Many ds))"
    using assms(1,2) many
    by (simp add: POST_subjects_def admin_write_admin create_subject_def Model_create_def
        st'_def)
  have len: "length ds = length bs" by (simp add: ds_def)
  have nth: "ds ! k = mk (next_oid st + k) (bs ! k)"
    using assms(5) by (simp add: ds_def nth_enumerate_eq)
  have "oid \<circ> (\<lambda>(i, b). mk i b) = fst"
    by (auto simp: mk_def fun_eq_iff)
  then have "map oid ds = [next_oid st..<next_oid st + length bs]"
    by (simp add: ds_def)
  then have dist: "distinct (map oid ds)" by simp
  have below: "list_all (\<lambda>d. oid d < next_oid st) (subjects st)"
    using assms(4) by (simp add: wf_store_def fresh_ids_def)
  have "findOne (subjects st') (oid (ds ! k)) = findOne ds (oid (ds ! k))"
    using below by (simp add: st'_def findOne_append_fresh nth mk_def)
  also have "\<dots> = Some (ds ! k)"
    using dist assms(5) len by (simp add: findOne_nth)
  finally have found: "findOne (subjects st') (oid (ds ! k)) = Some (ds ! k)" .
  have "protect st' cred = Inr u"
    using assms(1) protect_users [of st' st cred] by (simp add: st'_def)
  then have get: "GET_subjects_id st' cred (ObjectId (oid (ds ! k))) = json_data 200 (One (ds ! k))"
    using found by (simp add: GET_subjects_id_def protected_read_Inr getById_subject_def)
  have fields: "(body_name (bs ! k) \<noteq> None \<longrightarrow> name (ds ! k) = body_name (bs ! k)) \<and>
      (body_code (bs ! k) \<noteq> None \<longrightarrow> code (ds ! k) = body_code (bs ! k)) \<and>
      (body_color (bs ! k) \<noteq> None \<longrightarrow> color (ds ! k) = body_color (bs ! k)) \<and>
      oid (ds ! k) = next_oid st + k \<and> createdAt (ds ! k) = now"
    by (auto simp: nth mk_def merge_def)
  show ?thesis
    using post len get fields by (intro exI [of _ ds]) (simp add: st'_def)
qed

section \<open>Validation failures\<close>

text \<open>
  C10. Whenever a create or update request reaches the model call of its handler and
  the validators reject the body, the route answers 500 with \<open>success = False\<close> and the
  message of the validation error, and the store is unchanged; there is no 400. The model
  call is reached by every authenticated requester for the assignment create (the body is
  validated as stamped with the requester's id), by an administrator for the subject and
  exam routes, and, for the assignment update, when the record exists and a student
  requester is its creator. A create request whose body is an array with an element
  that the validators reject gets the same answer (the elements that pass are saved
  nonetheless).
\<close>

theorem validation_failure_is_500:
  assumes "protect st cred = Inr u"
  shows "(\<not> create_ok asc (ab\<lparr>body_createdBy := Some (oid u)\<rparr>) \<longrightarrow>
            fails_with_500 st (POST_assignments asc now st cred (Object ab))) \<and>
         (role u = ''admin'' \<and> \<not> create_ok ssc sb \<longrightarrow>
            fails_with_500 st (POST_subjects ssc now st cred (Object sb))) \<and>
         (role u = ''admin'' \<and> \<not> create_ok esc eb \<longrightarrow>
            fails_with_500 st (POST_exams esc st cred (Object eb))) \<and>
         (findOne (assignments st) i = Some a \<and> (role u = ''student'' \<longrightarrow> createdBy a = oid u) \<and>
          \<not> update_ok asc ab \<longrightarrow>
            fails_with_500 st (PUT_assignments_id asc st cred (ObjectId i) ab)) \<and>
         (role u = ''admin'' \<and> \<not> update_ok ssc sb \<longrightarrow>
            fails_with_500 st (PUT_subjects_id ssc st cred (ObjectId j) sb)) \<and>
         (role u = ''admin'' \<and> \<not> update_ok esc eb \<longrightarrow>
            fails_with_500 st (PUT_exams_id esc st cred (ObjectId k) eb)) \<and>
         (ab' \<in> set abodies \<and> \<not> create_ok asc ab' \<longrightarrow>
            snd (POST_assignments asc now st cred (Array abodies)) =
              json_fail 500 (ErrorMessage ValidationError)) \<and>
         (role u = ''admin'' \<and> sb' \<in> set sbodies \<and> \<not> create_ok ssc sb' \<longrightarrow>
            snd (POST_subjects ssc now st cred (Array sbodies)) =
              json_fail 500 (ErrorMessage ValidationError)) \<and>
         (role u = ''admin'' \<and> eb' \<in> set ebodies \<and> \<not> create_ok esc eb' \<longrightarrow>
            snd (POST_exams esc st cred (Array ebodies)) =
              json_fail 500 (ErrorMessage ValidationError))"
proof -
  have pa: "fails_with_500 st (POST_assignments asc now st cred (Object ab))"
    if "\<not> create_ok asc (ab\<lparr>body_createdBy := Some (oid u)\<rparr>)"
    using that assms
    by (simp add: POST_assignments_def protected_write_Inr create_assignment_def
        Model_create_Object new_assignment_def)
  have ps: "fails_with_500 st (POST_subjects ssc now st cred (Object sb))"
    if "role u = ''admin''" "\<not> create_ok ssc sb"
    using that assms
    by (simp add: POST_subjects_def admin_write_admin create_subject_def Model_create_Object
        new_subject_def)
  have pe: "fails_with_500 st (POST_exams esc st cred (Object eb))"
    if "role u = ''admin''" "\<not> create_ok esc eb"
    using that assms
    by (simp add: POST_exams_def admin_write_admin create_exam_def Model_create_Object
        new_exam_def)
  have ua: "fails_with_500 st (PUT_assignments_id asc st cred (ObjectId i) ab)"
    if "findOne (assignments st) i = Some a" "role u = ''student'' \<longrightarrow> createdBy a = oid u"
      "\<not> update_ok asc ab"
    using that assms
    by (auto simp: PUT_assignments_id_def protected_write_Inr update_assignment_def
        findByIdAndUpdate_ObjectId)
  have us: "fails_with_500 st (PUT_subjects_id ssc st cred (ObjectId j) sb)"
    if "role u = ''admin''" "\<not> update_ok ssc sb"
    using that assms
    by (simp add: PUT_subjects_id_def admin_write_admin update_subject_def
        findByIdAndUpdate_ObjectId)
  have ue: "fails_with_500 st (PUT_exams_id esc st cred (ObjectId k) eb)"
    if "role u = ''admin''" "\<not> update_ok esc eb"
    using that assms
    by (simp add: PUT_exams_id_def admin_write_admin update_exam_def findByIdAndUpdate_ObjectId)
  have aa: "snd (POST_assignments asc now st cred (Array abodies)) =
      json_fail 500 (ErrorMessage ValidationError)"
    if "ab' \<in> set abodies" "\<not> create_ok asc ab'"
  proof -
    have "snd (snd (Model_create (\<lambda>i. new_assignment asc i now) (next_oid st) (Array abodies))) =
        Inl ValidationError"
      using that
      by (intro Model_create_Array_rejects [of ab'])
        (auto simp: new_assignment_def split: if_splits option.splits)
    then show ?thesis
      using assms
      by (auto simp: POST_assignments_def protected_write_Inr create_assignment_def Let_def
          split: prod.splits sum.splits)
  qed
  have as: "snd (POST_subjects ssc now st cred (Array sbodies)) =
      json_fail 500 (ErrorMessage ValidationError)"
    if "role u = ''admin''" "sb' \<in> set sbodies" "\<not> create_ok ssc sb'"
  proof -
    have "snd (snd (Model_create (\<lambda>i. new_subject ssc i now) (next_oid st) (Array sbodies))) =
        Inl ValidationError"
      using that
      by (intro Model_create_Array_rejects [of sb'])
        (auto simp: new_subject_def split: if_splits)
    then show ?thesis
      using assms that(1)
      by (auto simp: POST_subjects_def admin_write_admin create_subject_def Let_def
          split: prod.splits sum.splits)
  qed
  have ae: "snd (POST_exams esc st cred (Array ebodies)) =
      json_fail 500 (ErrorMessage ValidationError)"
    if "role u = ''admin''" "eb' \<in> set ebodies" "\<not> create_ok esc eb'"
  proof -
    have "snd (snd (Model_create (new_exam esc) (next_oid st) (Array ebodies))) =
        Inl ValidationError"
      using that
      by (intro Model_create_Array_rejects [of eb'])
        (auto simp: new_exam_def split: if_splits)
    then show ?thesis
      using assms that(1)
      by (auto simp: POST_exams_def admin_write_admin create_exam_def Let_def
          split: prod.splits sum.splits)
  qed
  show ?thesis using pa ps pe ua us ue aa as ae by blast
qed


text \<open>
  A student with an unknown status, and an administrator with bodies the subject and exam
  schemas reject, as objects and within arrays.
\<close>

theorem validation_failure_is_500_witness:
  "protect campus (Some 1) = Inr alice \<and> protect campus (Some 3) = Inr root \<and>
   role root = ''admin'' \<and>
   \<not> create_ok assignment_schema (bogus_body\<lparr>body_createdBy := Some (oid alice)\<rparr>) \<and>
   fails_with_500 campus (POST_assignments assignment_schema 77 campus (Some 1) (Object bogus_body)) \<and>
   \<not> create_ok subject_schema no_subject_body \<and>
   fails_with_500 campus (POST_subjects subject_schema 77 campus (Some 3) (Object no_subject_body)) \<and>
   \<not> create_ok exam_schema no_exam_body \<and>
   fails_with_500 campus (POST_exams exam_schema campus (Some 3) (Object no_exam_body)) \<and>
   findOne (assignments campus) 20 = Some hw1 \<and> createdBy hw1 = oid alice \<and>
   \<not> update_ok assignment_schema bogus_body \<and>
   fails_with_500 campus (PUT_assignments_id assignment_schema campus (Some 1) (ObjectId 20) bogus_body) \<and>
   \<not> update_ok subject_schema unnamed_subject \<and>
   fails_with_500 campus (PUT_subjects_id subject_schema campus (Some 3) (ObjectId 10) unnamed_subject) \<and>
   \<not> update_ok exam_schema untitled_exam \<and>
   fails_with_500 campus (PUT_exams_id exam_schema campus (Some 3) (ObjectId 25) untitled_exam) \<and>
   \<not> create_ok assignment_schema bogus_body \<and>
   snd (POST_assignments assignment_schema 77 campus (Some 1) (Array [essay, bogus_body])) =
     json_fail 500 (ErrorMessage ValidationError) \<and>
   snd (POST_subjects subject_schema 77 campus (Some 3) (Array [chemistry, no_subject_body])) =
     json_fail 500 (ErrorMessage ValidationError) \<and>
   snd (POST_exams exam_schema campus (Some 3) (Array [no_exam_body])) =
     json_fail 500 (ErrorMessage ValidationError)"
proof -
  have pa: "protect campus (Some 1) = Inr alice" and pr: "protect campus (Some 3) = Inr root"
    by (rule protect_campus)+
  have r: "role root = ''admin''" by (simp add: root_def)
  have ca: "\<not> create_ok assignment_schema (bogus_body\<lparr>body_createdBy := Some (oid alice)\<rparr>)"
    by (simp add: assignment_schema_def bogus_body_def no_assignment_body_def)
  have cs: "\<not> create_ok subject_schema no_subject_body"
    by (simp add: subject_schema_def no_subject_body_def)
  have ce: "\<not> create_ok exam_schema no_exam_body"
    by (simp add: exam_schema_def no_exam_body_def)
  have f: "findOne (assignments campus) 20 = Some hw1"
    by (simp add: findOne_def example_defs)
  have o: "createdBy hw1 = oid alice" by (simp add: hw1_def alice_def)
  have ua: "\<not> update_ok assignment_schema bogus_body"
    by (simp add: assignment_schema_def bogus_body_def no_assignment_body_def status_ok_def)
  have us: "\<not> update_ok subject_schema unnamed_subject"
    by (simp add: subject_schema_def unnamed_subject_def)
  have ue: "\<not> update_ok exam_schema untitled_exam"
    by (simp add: exam_schema_def untitled_exam_def)
  note student = validation_failure_is_500 [OF pa, where asc = assignment_schema
      and ab = bogus_body and now = 77 and i = 20 and a = hw1]
  note admin_create = validation_failure_is_500 [OF pr, where ssc = subject_schema
      and sb = no_subject_body and now = 77 and esc = exam_schema and eb = no_exam_body]
  note admin_update = validation_failure_is_500 [OF pr, where ssc = subject_schema
      and sb = unnamed_subject and j = 10 and esc = exam_schema and eb = untitled_exam
      and k = 25]
  have "fails_with_500 campus (POST_assignments assignment_schema 77 campus (Some 1) (Object bogus_body))"
    using student ca by blast
  moreover have
    "fails_with_500 campus (PUT_assignments_id assignment_schema campus (Some 1) (ObjectId 20) bogus_body)"
    using student f o ua by blast
  moreover have
    "fails_with_500 campus (POST_subjects subject_schema 77 campus (Some 3) (Object no_subject_body))"
    "fails_with_500 campus (POST_exams exam_schema campus (Some 3) (Object no_exam_body))"
    using admin_create r cs ce by blast+
  moreover have
    "fails_with_500 campus (PUT_subjects_id subject_schema campus (Some 3) (ObjectId 10) unnamed_subject)"
    "fails_with_500 campus (PUT_exams_id exam_schema campus (Some 3) (ObjectId 25) untitled_exam)"
    using admin_update r us ue by blast+
  moreover have cb: "\<not> create_ok assignment_schema bogus_body"
    by (simp add: assignment_schema_def bogus_body_def no_assignment_body_def)
  moreover have
    "snd (POST_assignments assignment_schema 77 campus (Some 1) (Array [essay, bogus_body])) =
       json_fail 500 (ErrorMessage ValidationError)"
    using validation_failure_is_500 [OF pa, where asc = assignment_schema and now = 77
        and ab' = bogus_body and abodies = "[essay, bogus_body]"] cb
    by simp
  moreover have
    "snd (POST_subjects subject_schema 77 campus (Some 3) (Array [chemistry, no_subject_body])) =
       json_fail 500 (ErrorMessage ValidationError)"
    "snd (POST_exams exam_schema campus (Some 3) (Array [no_exam_body])) =
       json_fail 500 (ErrorMessage ValidationError)"
    using validation_failure_is_500 [OF pr, where ssc = subject_schema and now = 77
        and sb' = no_subject_body and sbodies = "[chemistry, no_subject_body]"
        and esc = exam_schema and eb' = no_exam_body and ebodies = "[no_exam_body]"] r cs ce
    by simp_all
  ultimately show ?thesis using pa pr r ca cs ce f o ua us ue by blast
qed

end
